theory Spec2Isabelle
  imports Complex_Main
begin

section \<open>Python values, keyword dictionaries and errors\<close>

text \<open>
  The functions of \<^verbatim>\<open>xarrayutils/plotting.py\<close> are embedded as state transformers over a
  small model of the pyplot state. Python floats are idealised as \<open>real\<close>, Python ints
  as \<open>int\<close>, one-dimensional numpy arrays as \<open>real list\<close> and two-dimensional ones as
  \<open>real list list\<close> (a list of rows). An exception is a value of type \<open>error\<close>.
\<close>

datatype error = ValueError | RuntimeError | KeyError | TypeError

text \<open>
  Python objects with a plain truth value (no arrays): what a flag such as
  \<^verbatim>\<open>split_detection\<close> can be bound to.
\<close>

datatype pyval =
    PyNone
  | PyBool bool
  | PyInt int
  | PyFloat real
  | PyStr string
  | PyTuple "pyval list"
  | PyList "pyval list"

text \<open>Python's truth value testing, as \<^verbatim>\<open>if v:\<close> applies it.\<close>

fun truthy :: "pyval \<Rightarrow> bool" where
  "truthy PyNone = False"
| "truthy (PyBool b) = b"
| "truthy (PyInt i) = (i \<noteq> 0)"
| "truthy (PyFloat r) = (r \<noteq> 0)"
| "truthy (PyStr s) = (s \<noteq> [])"
| "truthy (PyTuple vs) = (vs \<noteq> [])"
| "truthy (PyList vs) = (vs \<noteq> [])"

text \<open>
  Values that travel through keyword arguments: plain Python objects, numpy arrays and
  xarray DataArrays.
\<close>

datatype kwval = Val pyval | Ndarray "real list" | DataArray "real list"

text \<open>
  A keyword dictionary keeps insertion order. \<open>dict_set\<close> is \<^verbatim>\<open>d[k] = v\<close> and
  \<open>dict_update\<close> is \<^verbatim>\<open>d.update(other)\<close>: keys of \<open>other\<close> overwrite.
\<close>

type_synonym kwargs = "(string \<times> kwval) list"

fun dict_set :: "string \<Rightarrow> kwval \<Rightarrow> kwargs \<Rightarrow> kwargs" where
  "dict_set k v [] = [(k, v)]"
| "dict_set k v (p # ps) = (if fst p = k then (k, v) # ps else p # dict_set k v ps)"

fun dict_update :: "kwargs \<Rightarrow> kwargs \<Rightarrow> kwargs" where
  "dict_update d [] = d"
| "dict_update d (p # ps) = dict_update (dict_set (fst p) (snd p) d) ps"

fun dict_get :: "kwargs \<Rightarrow> string \<Rightarrow> kwval option" where
  "dict_get [] k = None"
| "dict_get (p # ps) k = (if fst p = k then Some (snd p) else dict_get ps k)"

text \<open>Python's \<^verbatim>\<open>str\<close> on an int: the decimal digits, with a minus sign when negative.\<close>

definition digit_char :: "nat \<Rightarrow> char" where
  "digit_char d = ''0123456789'' ! d"

function str_nat :: "nat \<Rightarrow> string" where
  "str_nat n = (if n < 10 then [digit_char n] else str_nat (n div 10) @ [digit_char (n mod 10)])"
  by pat_completeness auto
termination
  by (relation "measure (\<lambda>n. n)") auto

definition str_int :: "int \<Rightarrow> string" where
  "str_int i = (if i < 0 then CHR ''-'' # str_nat (nat (- i)) else str_nat (nat i))"

text \<open>Reading a digit string back, to say what "decimal string" means.\<close>

definition digit_val :: "char \<Rightarrow> nat" where
  "digit_val c = of_char c - 48"

definition nat_of_digits :: "string \<Rightarrow> nat" where
  "nat_of_digits s = foldl (\<lambda>a c. 10 * a + digit_val c) 0 s"

definition int_of_str :: "string \<Rightarrow> int" where
  "int_of_str s = (case s of
      [] \<Rightarrow> 0
    | c # cs \<Rightarrow> if c = CHR ''-'' then - int (nat_of_digits cs) else int (nat_of_digits s))"

section \<open>The plotting state\<close>

text \<open>
  What the library is asked to draw is recorded per axes, in call order. The
  constructors are the axes methods the source calls, with the arguments it passes.
  \<open>Text\<close> is \<^verbatim>\<open>plt.text\<close>; its \<open>nat\<close> is the axes whose \<^verbatim>\<open>transAxes\<close> is passed as
  \<^verbatim>\<open>transform\<close>. The \<open>nat\<close> of \<open>Clabel\<close> is the contour set it labels (the position of the
  \<open>Contour\<close> call in the axes' record), the \<open>nat\<close> pair of \<open>Colorbar\<close> the figure asked
  and the scatter it describes.
\<close>

datatype call =
    Plot "real list" "real list" kwargs
  | Fill_between "real list" "real list" "real list" kwargs
  | Fill_betweenx "real list" "real list" "real list" kwargs
  | Set_yscale string kwargs
  | Set_yticks "int list"
  | Set_yticklabels "string list"
  | Invert_yaxis
  | Set_xlabel string
  | Set_ylabel string
  | Scatter "real list" "real list" kwargs
  | Contour "real list" "real list" "real list list" kwargs
  | Clabel nat kwargs
  | Text real real string nat kwargs
  | Colorbar nat nat

record axes =
  xlim :: "real \<times> real"
  ylim :: "real \<times> real"
  calls :: "call list"

text \<open>
  The pyplot state: the axes objects by handle, pyplot's current axes and current
  figure (\<open>None\<close> before any exists), and the next free handles.
\<close>

record pyplot =
  axs :: "nat \<Rightarrow> axes"
  next_ax :: nat
  cur_ax :: "nat option"
  next_fig :: nat
  cur_fig :: "nat option"

type_synonym 'a result = "(error + 'a) \<times> pyplot"

definition new_axes :: axes where
  "new_axes = \<lparr>xlim = (0, 1), ylim = (0, 1), calls = []\<rparr>"

text \<open>\<^verbatim>\<open>plt.gcf()\<close>: the current figure; one is created when there is none.\<close>

definition gcf :: "pyplot \<Rightarrow> nat \<times> pyplot" where
  "gcf st = (case cur_fig st of
      Some f \<Rightarrow> (f, st)
    | None \<Rightarrow> (next_fig st, st\<lparr>next_fig := Suc (next_fig st), cur_fig := Some (next_fig st)\<rparr>))"

text \<open>
  \<^verbatim>\<open>plt.gca()\<close>: the current axes of the current figure; a fresh axes (limits 0 to 1,
  nothing drawn) is created when there is none.
\<close>

definition gca :: "pyplot \<Rightarrow> nat \<times> pyplot" where
  "gca st = (let (f, st1) = gcf st in
     case cur_ax st1 of
       Some a \<Rightarrow> (a, st1)
     | None \<Rightarrow> (next_ax st1,
         st1\<lparr>axs := (axs st1)(next_ax st1 := new_axes),
             next_ax := Suc (next_ax st1),
             cur_ax := Some (next_ax st1)\<rparr>))"

definition get_xlim :: "nat \<Rightarrow> pyplot \<Rightarrow> real \<times> real" where
  "get_xlim a st = xlim (axs st a)"

definition get_ylim :: "nat \<Rightarrow> pyplot \<Rightarrow> real \<times> real" where
  "get_ylim a st = ylim (axs st a)"

definition set_xlim :: "nat \<Rightarrow> real \<times> real \<Rightarrow> pyplot \<Rightarrow> pyplot" where
  "set_xlim a v st = st\<lparr>axs := (axs st)(a := (axs st a)\<lparr>xlim := v\<rparr>)\<rparr>"

definition set_ylim :: "nat \<Rightarrow> real \<times> real \<Rightarrow> pyplot \<Rightarrow> pyplot" where
  "set_ylim a v st = st\<lparr>axs := (axs st)(a := (axs st a)\<lparr>ylim := v\<rparr>)\<rparr>"

text \<open>A drawing method called on axes \<open>a\<close>: the call is appended to the axes' record.\<close>

definition ax_call :: "nat \<Rightarrow> call \<Rightarrow> pyplot \<Rightarrow> pyplot" where
  "ax_call a c st = st\<lparr>axs := (axs st)(a := (axs st a)\<lparr>calls := calls (axs st a) @ [c]\<rparr>)\<rparr>"

fun ax_calls :: "nat \<Rightarrow> call list \<Rightarrow> pyplot \<Rightarrow> pyplot" where
  "ax_calls a [] st = st"
| "ax_calls a (c # cs) st = ax_calls a cs (ax_call a c st)"

text \<open>
  In \<^verbatim>\<open>plot_line_shaded_std\<close> and \<^verbatim>\<open>draw_dens_contours_teos10\<close> the arrays handed to
  the drawing methods come from the caller or from a grid whose size the caller chooses,
  so the methods' checks of their shapes are part of the model, and a refused call raises
  with nothing drawn: \<^verbatim>\<open>plot\<close> wants \<open>x\<close> and \<open>y\<close> of one length (ValueError otherwise);
  \<^verbatim>\<open>fill_between\<close> and \<^verbatim>\<open>fill_betweenx\<close> want three arrays that broadcast together
  (ValueError otherwise); \<^verbatim>\<open>contour\<close> wants a grid of at least two rows and two columns,
  \<open>y\<close> as long as the grid has rows and \<open>x\<close> as long as its rows (TypeError otherwise).
  The other calls are recorded with the arguments they are given (\<^verbatim>\<open>box_plot\<close> builds
  its own lists, of equal length). Keyword dictionaries are passed on as they are.
\<close>

definition broadcastable :: "nat list \<Rightarrow> bool" where
  "broadcastable ls = (case filter (\<lambda>l. l \<noteq> 1) ls of
      [] \<Rightarrow> True
    | l # rest \<Rightarrow> list_all (\<lambda>k. k = l) rest)"

definition ax_plot :: "nat \<Rightarrow> real list \<Rightarrow> real list \<Rightarrow> kwargs \<Rightarrow> pyplot \<Rightarrow> error + pyplot" where
  "ax_plot a x y kw st =
     (if length x = length y then Inr (ax_call a (Plot x y kw) st) else Inl ValueError)"

definition ax_fill_between ::
  "nat \<Rightarrow> real list \<Rightarrow> real list \<Rightarrow> real list \<Rightarrow> kwargs \<Rightarrow> pyplot \<Rightarrow> error + pyplot" where
  "ax_fill_between a x y1 y2 kw st =
     (if broadcastable [length x, length y1, length y2]
      then Inr (ax_call a (Fill_between x y1 y2 kw) st) else Inl ValueError)"

definition ax_fill_betweenx ::
  "nat \<Rightarrow> real list \<Rightarrow> real list \<Rightarrow> real list \<Rightarrow> kwargs \<Rightarrow> pyplot \<Rightarrow> error + pyplot" where
  "ax_fill_betweenx a y x1 x2 kw st =
     (if broadcastable [length y, length x1, length x2]
      then Inr (ax_call a (Fill_betweenx y x1 x2 kw) st) else Inl ValueError)"

definition ax_contour ::
  "nat \<Rightarrow> real list \<Rightarrow> real list \<Rightarrow> real list list \<Rightarrow> kwargs \<Rightarrow> pyplot \<Rightarrow> error + pyplot" where
  "ax_contour a x y z kw st =
     (if 2 \<le> length z \<and> 2 \<le> length x \<and> length y = length z
         \<and> list_all (\<lambda>row. length row = length x) z
      then Inr (ax_call a (Contour x y z kw) st) else Inl TypeError)"

section \<open>center\_lim\<close>

text \<open>
  \<^verbatim>\<open>abs(lim).max()\<close> of the two limits, and \<^verbatim>\<open>np.array([-1, 1]) * m\<close>.
\<close>

definition abs_max :: "real \<times> real \<Rightarrow> real" where
  "abs_max l = max \<bar>fst l\<bar> \<bar>snd l\<bar>"

definition sym_lim :: "real \<Rightarrow> real \<times> real" where
  "sym_lim m = (- 1 * m, 1 * m)"

function center_lim :: "nat \<Rightarrow> string \<Rightarrow> pyplot \<Rightarrow> unit result" where
  "center_lim ax which st =
     (if which = ''y'' then
        (let lims = get_ylim ax st in (Inr (), set_ylim ax (sym_lim (abs_max lims)) st))
      else if which = ''x'' then
        (let lims = get_xlim ax st in (Inr (), set_xlim ax (sym_lim (abs_max lims)) st))
      else if which \<in> set [''xy'', ''yx''] then
        (case center_lim ax ''x'' st of
           (Inl e, st1) \<Rightarrow> (Inl e, st1)
         | (Inr u, st1) \<Rightarrow> center_lim ax ''y'' st1)
      else (Inl ValueError, st))"
  by pat_completeness auto
termination
  by (relation "measure (\<lambda>(ax, which, st). if which = ''xy'' \<or> which = ''yx'' then 1 else 0)") auto

section \<open>depth\_logscale\<close>

definition default_ticks :: "int list" where
  "default_ticks = [0, 100, 250, 500, 1000, 2500, 5000]"

definition depth_logscale :: "nat \<Rightarrow> kwval \<Rightarrow> int list option \<Rightarrow> pyplot \<Rightarrow> unit result" where
  "depth_logscale ax yscale ticks st =
     (let ticks = (case ticks of None \<Rightarrow> default_ticks | Some t \<Rightarrow> t);
          st = ax_call ax (Set_yscale ''symlog'' [(''linthreshy'', yscale)]) st;
          ticklabels = map str_int ticks;
          st = ax_call ax (Set_yticks ticks) st;
          st = ax_call ax (Set_yticklabels ticklabels) st;
          st = ax_call ax Invert_yaxis st
      in (Inr (), st))"

section \<open>plot\_line\_shaded\_std\<close>

text \<open>
  Elementwise arithmetic of numpy on one-dimensional arrays: the shapes must agree, or
  one operand has a single element and is broadcast; anything else raises ValueError.
\<close>

definition np_elementwise :: "(real \<Rightarrow> real \<Rightarrow> real) \<Rightarrow> real list \<Rightarrow> real list \<Rightarrow> error + real list" where
  "np_elementwise f a b =
     (if length a = length b then Inr (map2 f a b)
      else case b of
        [v] \<Rightarrow> Inr (map (\<lambda>u. f u v) a)
      | _ \<Rightarrow> (case a of
          [u] \<Rightarrow> Inr (map (\<lambda>v. f u v) b)
        | _ \<Rightarrow> Inl ValueError))"

definition np_sub :: "real list \<Rightarrow> real list \<Rightarrow> error + real list" where
  "np_sub a b = np_elementwise (\<lambda>u v. u - v) a b"

definition np_add :: "real list \<Rightarrow> real list \<Rightarrow> error + real list" where
  "np_add a b = np_elementwise (\<lambda>u v. u + v) a b"

text \<open>
  \<open>p_color\<close> is what \<^verbatim>\<open>p[-1].get_color()\<close> returns: the colour the library gave the line
  just drawn. The result \<open>p\<close> is the handle of that line, its position in the axes'
  record. The band's bounds are evaluated left to right, after the line is drawn, so a
  shape mismatch between \<open>y\<close> and \<open>std_y\<close> raises with the line already on the axes.
\<close>

definition plot_line_shaded_std ::
  "real list \<Rightarrow> real list \<Rightarrow> real list \<Rightarrow> bool \<Rightarrow> nat option \<Rightarrow> kwargs \<Rightarrow> kwargs \<Rightarrow> kwval
     \<Rightarrow> pyplot \<Rightarrow> nat result" where
  "plot_line_shaded_std x y std_y horizontal ax line_kwargs fill_kwargs p_color st =
     (let line_defaults = [];
          (ax, st) = (case ax of None \<Rightarrow> gca st | Some a \<Rightarrow> (a, st));
          line_defaults = dict_update line_defaults line_kwargs;
          p = length (calls (axs st ax))
      in case (if horizontal then ax_plot ax x y line_defaults st
               else ax_plot ax y x line_defaults st) of
           Inl e \<Rightarrow> (Inl e, st)
         | Inr st \<Rightarrow>
             (let fill_defaults = [(''color'', p_color), (''alpha'', Val (PyFloat 0.35))];
                  fill_defaults = dict_update fill_defaults fill_kwargs
              in case np_sub y std_y of
                   Inl e \<Rightarrow> (Inl e, st)
                 | Inr lower \<Rightarrow>
                     (case np_add y std_y of
                        Inl e \<Rightarrow> (Inl e, st)
                      | Inr upper \<Rightarrow>
                          (case (if horizontal
                                 then ax_fill_between ax x lower upper fill_defaults st
                                 else ax_fill_betweenx ax x lower upper fill_defaults st) of
                             Inl e \<Rightarrow> (Inl e, st)
                           | Inr st \<Rightarrow> (Inr p, st)))))"

section \<open>box\_plot\<close>

text \<open>\<^verbatim>\<open>np.diff([a, b])\<close> has the single element \<open>b - a\<close>.\<close>

definition np_diff :: "real \<Rightarrow> real \<Rightarrow> real" where
  "np_diff a b = b - a"

text \<open>Lines 108 to 119: the two flags start False and are raised under \<^verbatim>\<open>if split_detection:\<close>.\<close>

definition split_flags :: "pyval \<Rightarrow> real \<Rightarrow> real \<Rightarrow> real \<Rightarrow> real \<Rightarrow> bool \<times> bool" where
  "split_flags split_detection b0 b1 b2 b3 =
     (let x_split = False;
          y_split = False
      in if truthy split_detection
         then (if np_diff b0 b1 < 0 then True else x_split,
               if np_diff b2 b3 < 0 then True else y_split)
         else (x_split, y_split))"

text \<open>Lines 121 to 150: the plot calls of each branch, in order.\<close>

definition outline ::
  "bool \<Rightarrow> bool \<Rightarrow> real \<times> real \<Rightarrow> real \<times> real \<Rightarrow> real \<Rightarrow> real \<Rightarrow> real \<Rightarrow> real \<Rightarrow> kwargs \<Rightarrow> call list" where
  "outline x_split y_split xl yl b0 b1 b2 b3 kwargs =
     (if y_split \<and> \<not> x_split then
        [Plot [b0, b0, b1, b1, b0] [snd yl, b2, b2, snd yl, snd yl] kwargs,
         Plot [b0, b0, b1, b1, b0] [fst yl, b3, b3, fst yl, fst yl] kwargs]
      else if x_split \<and> \<not> y_split then
        [Plot [snd xl, b0, b0, snd xl, snd xl] [b2, b2, b3, b3, b2] kwargs,
         Plot [fst xl, b1, b1, fst xl, fst xl] [b2, b2, b3, b3, b2] kwargs]
      else if x_split \<and> y_split then
        [Plot [snd xl, b0, b0] [b2, b2, snd yl] kwargs,
         Plot [fst xl, b1, b1] [b2, b2, snd yl] kwargs,
         Plot [snd xl, b0, b0] [b3, b3, fst yl] kwargs,
         Plot [fst xl, b1, b1] [b3, b3, fst yl] kwargs]
      else if \<not> x_split \<and> \<not> y_split then
        [Plot [b0, b0, b1, b1, b0] [b2, b3, b3, b2, b2] kwargs]
      else [])"

text \<open>
  \<open>split_detection = None\<close> is the call that omits the argument, which then takes
  its default, the string \<^verbatim>\<open>'True'\<close>. The limits are read from \<^verbatim>\<open>plt.gca()\<close>, the
  drawing goes to \<open>ax\<close>.
\<close>

definition split_detection_default :: pyval where
  "split_detection_default = PyStr ''True''"

definition box_plot :: "real list \<Rightarrow> nat option \<Rightarrow> pyval option \<Rightarrow> kwargs \<Rightarrow> pyplot \<Rightarrow> unit result" where
  "box_plot box ax split_detection kwargs st =
     (let split_detection =
            (case split_detection of None \<Rightarrow> split_detection_default | Some v \<Rightarrow> v)
      in case box of
        [b0, b1, b2, b3] \<Rightarrow>
          (let (g, st) = gca st;
               xl = get_xlim g st;
               (g, st) = gca st;
               yl = get_ylim g st;
               (ax, st) = (case ax of None \<Rightarrow> gca st | Some a \<Rightarrow> (a, st));
               (x_split, y_split) = split_flags split_detection b0 b1 b2 b3
           in (Inr (), ax_calls ax (outline x_split y_split xl yl b0 b1 b2 b3 kwargs) st))
      | _ \<Rightarrow> (Inl RuntimeError, st))"

section \<open>draw\_dens\_contours\_teos10\<close>

text \<open>
  The gsw library is outside the repository: its three entry points are parameters.
  \<open>sigma_func g name\<close> is the equation of state \<^verbatim>\<open>getattr(gsw, name)\<close> at one point,
  absolute salinity first and conservative temperature second; on two grids of one
  shape the library applies it entry by entry (\<open>on_grids\<close>).
\<close>

record gsw =
  SA_from_SP :: "real list \<Rightarrow> real list \<Rightarrow> real list \<Rightarrow> real list \<Rightarrow> real list"
  CT_from_pt :: "real list \<Rightarrow> real list \<Rightarrow> real list"
  sigma_func :: "string \<Rightarrow> real \<Rightarrow> real \<Rightarrow> real"

definition on_grids :: "(real \<Rightarrow> real \<Rightarrow> real) \<Rightarrow> real list list \<Rightarrow> real list list \<Rightarrow> real list list" where
  "on_grids f ss tt = map2 (\<lambda>srow trow. map2 f srow trow) ss tt"

text \<open>
  \<^verbatim>\<open>np.linspace(start, stop, num)\<close>: \<open>num\<close> samples with the step
  \<open>(stop - start) / (num - 1)\<close>, the last one set to \<open>stop\<close>; a negative \<open>num\<close> raises.
\<close>

definition np_linspace :: "real \<Rightarrow> real \<Rightarrow> int \<Rightarrow> error + real list" where
  "np_linspace start stop num =
     (if num < 0 then Inl ValueError
      else if num \<le> 1 then Inr (map (\<lambda>i. start) [0..<nat num])
      else (let step = (stop - start) / real_of_int (num - 1);
                ys = map (\<lambda>i. start + real i * step) [0..<nat num]
            in Inr (ys[nat num - 1 := stop])))"

text \<open>\<^verbatim>\<open>np.meshgrid(x, y)\<close>: \<open>length y\<close> rows; row \<open>i\<close> of the first grid is \<open>x\<close>, row \<open>i\<close> of the
  second repeats \<open>y ! i\<close>.\<close>

definition np_meshgrid :: "real list \<Rightarrow> real list \<Rightarrow> real list list \<times> real list list" where
  "np_meshgrid x y = (map (\<lambda>v. x) y, map (\<lambda>v. map (\<lambda>u. v) x) y)"

text \<open>\<^verbatim>\<open>a.min()\<close> and \<^verbatim>\<open>a.max()\<close> over all entries; an empty array raises ValueError.\<close>

definition arr_min :: "real list list \<Rightarrow> error + real" where
  "arr_min a = (case concat a of [] \<Rightarrow> Inl ValueError | v # vs \<Rightarrow> Inr (fold min vs v))"

definition arr_max :: "real list list \<Rightarrow> error + real" where
  "arr_max a = (case concat a of [] \<Rightarrow> Inl ValueError | v # vs \<Rightarrow> Inr (fold max vs v))"

definition np_floor :: "real \<Rightarrow> real" where
  "np_floor r = of_int \<lfloor>r\<rfloor>"

definition np_ceil :: "real \<Rightarrow> real" where
  "np_ceil r = of_int \<lceil>r\<rceil>"

text \<open>
  \<^verbatim>\<open>np.arange(start, stop, step)\<close>: \<open>ceil((stop - start) / step)\<close> values
  \<open>start + i * step\<close> (none when that count is not positive); a zero step raises.
\<close>

definition np_arange :: "real \<Rightarrow> real \<Rightarrow> real \<Rightarrow> error + real list" where
  "np_arange start stop step =
     (if step = 0 then Inl ValueError
      else Inr (map (\<lambda>i. start + real i * step) [0..<nat \<lceil>(stop - start) / step\<rceil>]))"

text \<open>The keyword parameters of \<^verbatim>\<open>draw_dens_contours_teos10\<close> other than \<open>ax\<close>.\<close>

record dens_args =
  sigma :: string
  add_labels :: bool
  density_grid :: int
  dens_interval :: real
  salt_on_x :: bool
  slim :: "(real \<times> real) option"
  tlim :: "(real \<times> real) option"
  contour_kwargs :: kwargs
  c_label_kwargs :: kwargs
  kwargs :: kwargs

definition dens_defaults :: dens_args where
  "dens_defaults = \<lparr>sigma = ''sigma0'', add_labels = True, density_grid = 20,
     dens_interval = 1.0, salt_on_x = True, slim = None, tlim = None,
     contour_kwargs = [], c_label_kwargs = [], kwargs = []\<rparr>"

definition sigma_names :: "string list" where
  "sigma_names = map (\<lambda>s. ''sigma'' @ str_nat s) [0..<5]"

text \<open>Lines 182 to 196: the limits and the two sample vectors \<open>(x, y)\<close>.\<close>

definition dens_xy :: "dens_args \<Rightarrow> nat \<Rightarrow> pyplot \<Rightarrow> error + (real list \<times> real list)" where
  "dens_xy a ax st =
     (if salt_on_x a then
        (let sl = (case slim a of None \<Rightarrow> get_xlim ax st | Some l \<Rightarrow> l);
             tl = (case tlim a of None \<Rightarrow> get_ylim ax st | Some l \<Rightarrow> l)
         in case np_linspace (fst sl) (snd sl) (density_grid a) of
              Inl e \<Rightarrow> Inl e
            | Inr x \<Rightarrow> (case np_linspace (fst tl) (snd tl) (density_grid a) of
                Inl e \<Rightarrow> Inl e
              | Inr y \<Rightarrow> Inr (x, y)))
      else
        (let tl = (case tlim a of None \<Rightarrow> get_xlim ax st | Some l \<Rightarrow> l);
             sl = (case slim a of None \<Rightarrow> get_ylim ax st | Some l \<Rightarrow> l)
         in case np_linspace (fst sl) (snd sl) (density_grid a) of
              Inl e \<Rightarrow> Inl e
            | Inr x \<Rightarrow> (case np_linspace (fst tl) (snd tl) (density_grid a) of
                Inl e \<Rightarrow> Inl e
              | Inr y \<Rightarrow> Inr (x, y))))"

text \<open>Lines 198 to 205: the two grids \<open>(ss, tt)\<close> and \<open>sig = sigma_func(ss, tt)\<close>.\<close>

definition dens_grids :: "dens_args \<Rightarrow> real list \<Rightarrow> real list \<Rightarrow> real list list \<times> real list list" where
  "dens_grids a x y =
     (if salt_on_x a then (let (ss, tt) = np_meshgrid x y in (ss, tt))
      else (let (tt, ss) = np_meshgrid x y in (ss, tt)))"

definition dens_sig :: "gsw \<Rightarrow> dens_args \<Rightarrow> real list \<Rightarrow> real list \<Rightarrow> real list list" where
  "dens_sig g a x y =
     (let (ss, tt) = dens_grids a x y in on_grids (sigma_func g (sigma a)) ss tt)"

text \<open>Line 207: the contour levels computed from \<open>sig\<close>.\<close>

definition dens_levels :: "real list list \<Rightarrow> real \<Rightarrow> error + real list" where
  "dens_levels sig step =
     (case arr_min sig of
        Inl e \<Rightarrow> Inl e
      | Inr lo \<Rightarrow> (case arr_max sig of
          Inl e \<Rightarrow> Inl e
        | Inr hi \<Rightarrow> np_arange (np_floor lo) (np_ceil hi) step))"

definition sigma_label :: "string \<Rightarrow> string" where
  "sigma_label s = ''$'' @ [CHR 0x5C] @ ''sigma_{'' @ [last s] @ ''}$''"

text \<open>Lines 209 to 216: the two keyword dictionaries, defaults first, then the caller's.\<close>

definition c_kwarg :: "real list \<Rightarrow> dens_args \<Rightarrow> kwargs" where
  "c_kwarg levels a =
     (let c_kwarg_defaults =
            [(''levels'', Ndarray levels), (''colors'', Val (PyStr ''0.4'')),
             (''linestyles'', Val (PyStr ''--'')), (''linewidths'', Val (PyFloat 0.5))];
          c_kwarg_defaults = dict_update c_kwarg_defaults (kwargs a);
          c_kwarg_defaults = dict_update c_kwarg_defaults (contour_kwargs a)
      in c_kwarg_defaults)"

definition c_label_kwarg :: "dens_args \<Rightarrow> kwargs" where
  "c_label_kwarg a =
     (let c_label_kwarg_defaults = [(''fmt'', Val (PyStr ''%.02f''))];
          c_label_kwarg_defaults = dict_update c_label_kwarg_defaults (kwargs a);
          c_label_kwarg_defaults = dict_update c_label_kwarg_defaults (c_label_kwargs a)
      in c_label_kwarg_defaults)"

text \<open>
  Lines 221 to 225: the label. The text is placed by \<^verbatim>\<open>plt.text\<close>, that is on pyplot's
  current axes, with the transform of \<open>ax\<close>.
\<close>

definition dens_label :: "dens_args \<Rightarrow> nat \<Rightarrow> kwargs \<Rightarrow> pyplot \<Rightarrow> unit result" where
  "dens_label a ax c_kwarg_defaults st =
     (if add_labels a then
        (case dict_get c_kwarg_defaults ''colors'' of
           None \<Rightarrow> (Inl KeyError, st)
         | Some col \<Rightarrow>
             (let (cur, st) = gca st
              in (Inr (), ax_call cur
                   (Text 0.05 0.05 (sigma_label (sigma a)) ax
                      [(''fontsize'', Val (PyInt 14)),
                       (''verticalalignment'', Val (PyStr ''center'')),
                       (''horizontalalignment'', Val (PyStr ''center'')),
                       (''color'', col)]) st)))
      else (Inr (), st))"

text \<open>
  The whole function. A grid of fewer than two samples a side is refused by
  \<^verbatim>\<open>contour\<close>, before anything is drawn.
\<close>

definition draw_dens_contours_teos10 :: "gsw \<Rightarrow> dens_args \<Rightarrow> nat option \<Rightarrow> pyplot \<Rightarrow> unit result" where
  "draw_dens_contours_teos10 g a ax st =
     (let (ax, st) = (case ax of None \<Rightarrow> gca st | Some h \<Rightarrow> (h, st))
      in if sigma a \<notin> set sigma_names then (Inl ValueError, st)
      else case dens_xy a ax st of
        Inl e \<Rightarrow> (Inl e, st)
      | Inr (x, y) \<Rightarrow>
         (let sig = dens_sig g a x y
          in case dens_levels sig (dens_interval a) of
            Inl e \<Rightarrow> (Inl e, st)
          | Inr levels \<Rightarrow>
             (let c_kwarg_defaults = c_kwarg levels a;
                  c_label_kwarg_defaults = c_label_kwarg a;
                  ch = length (calls (axs st ax))
              in case ax_contour ax x y sig c_kwarg_defaults st of
                   Inl e \<Rightarrow> (Inl e, st)
                 | Inr st \<Rightarrow>
                     (let st = ax_call ax (Clabel ch c_label_kwarg_defaults) st
                      in dens_label a ax c_kwarg_defaults st))))"

section \<open>tsdiagram\<close>

definition temp_label_teos10 :: string where
  "temp_label_teos10 = ''Conservative Temperature [$^{'' @ [CHR 0x5C] @ ''circ}C$]''"

definition salt_label_teos10 :: string where
  "salt_label_teos10 = ''Absolute Salinity [$g/kg$]''"

definition temp_label_plain :: string where
  "temp_label_plain = ''Potential Temperature [$^{'' @ [CHR 0x5C] @ ''circ}C$]''"

definition salt_label_plain :: string where
  "salt_label_plain = ''Practical Salinity [$g/kg$]''"

text \<open>
  Lines 240 to 251: the conversion, giving the two labels and the values to scatter, or
  the ValueError when a coordinate is missing.
\<close>

definition ts_convert ::
  "gsw \<Rightarrow> real list \<Rightarrow> real list \<Rightarrow> real list option \<Rightarrow> real list option \<Rightarrow> real list option \<Rightarrow> bool
     \<Rightarrow> error + (string \<times> string \<times> real list \<times> real list)" where
  "ts_convert g salt temp lon lat pressure convert_teos10 =
     (if convert_teos10 then
        (let temp_label = temp_label_teos10;
             salt_label = salt_label_teos10
         in case (lon, lat, pressure) of
              (Some lo, Some la, Some p) \<Rightarrow>
                (let salt = SA_from_SP g salt p lo la;
                     temp = CT_from_pt g salt temp
                 in Inr (temp_label, salt_label, salt, temp))
            | _ \<Rightarrow> Inl ValueError)
      else
        (let temp_label = temp_label_plain;
             salt_label = salt_label_plain
         in Inr (temp_label, salt_label, salt, temp)))"

text \<open>Lines 262 to 269: the colorbar, by the type of \<open>color\<close>.\<close>

definition ts_cbar :: "bool \<Rightarrow> kwval \<Rightarrow> nat \<Rightarrow> nat \<Rightarrow> nat \<Rightarrow> pyplot \<Rightarrow> nat result" where
  "ts_cbar draw_cbar color fig ax s st =
     (if draw_cbar \<and> color \<noteq> Val PyNone then
        (case color of
           Val (PyStr c) \<Rightarrow> (Inr s, st)
         | Val (PyTuple c) \<Rightarrow> (Inr s, st)
         | Val (PyList c) \<Rightarrow> (Inr s, ax_call ax (Colorbar fig s) st)
         | Ndarray c \<Rightarrow> (Inr s, ax_call ax (Colorbar fig s) st)
         | DataArray c \<Rightarrow> (Inr s, ax_call ax (Colorbar fig s) st)
         | _ \<Rightarrow> (Inl RuntimeError, st))
      else (Inr s, st))"

text \<open>
  The whole function; its result is the handle \<open>s\<close> of the scatter, the position of the
  \<open>Scatter\<close> call in the axes' record. The parameters \<open>size\<close>, \<open>add_labels\<close> and
  \<open>kwargs\<close> of the source are written \<open>sz\<close>, \<open>labels\<close> and \<open>kw\<close>.
\<close>

definition tsdiagram ::
  "gsw \<Rightarrow> real list \<Rightarrow> real list \<Rightarrow> kwval \<Rightarrow> kwval
     \<Rightarrow> real list option \<Rightarrow> real list option \<Rightarrow> real list option
     \<Rightarrow> bool \<Rightarrow> dens_args \<Rightarrow> nat option \<Rightarrow> nat option \<Rightarrow> bool \<Rightarrow> bool \<Rightarrow> bool \<Rightarrow> kwargs
     \<Rightarrow> pyplot \<Rightarrow> nat result" where
  "tsdiagram g salt temp color sz lon lat pressure convert_teos10 ts_kwargs ax fig
       draw_density_contours draw_cbar labels kw st =
     (let (ax, st) = (case ax of None \<Rightarrow> gca st | Some h \<Rightarrow> (h, st));
          (fig, st) = (case fig of None \<Rightarrow> gcf st | Some f \<Rightarrow> (f, st))
      in case ts_convert g salt temp lon lat pressure convert_teos10 of
        Inl e \<Rightarrow> (Inl e, st)
      | Inr (temp_label, salt_label, salt, temp) \<Rightarrow>
         (let st = (if labels
                    then ax_call ax (Set_ylabel temp_label) (ax_call ax (Set_xlabel salt_label) st)
                    else st);
              scatter_kw_defaults = [(''s'', sz), (''c'', color)];
              scatter_kw_defaults = dict_update scatter_kw_defaults kw;
              s = length (calls (axs st ax));
              st = ax_call ax (Scatter salt temp scatter_kw_defaults) st
          in if draw_density_contours then
               (case draw_dens_contours_teos10 g ts_kwargs (Some ax) st of
                  (Inl e, st) \<Rightarrow> (Inl e, st)
                | (Inr u, st) \<Rightarrow> ts_cbar draw_cbar color fig ax s st)
             else ts_cbar draw_cbar color fig ax s st))"

section \<open>Example states\<close>

text \<open>Concrete states on which the theorems below are instantiated.\<close>

definition ex_axes :: axes where
  "ex_axes = \<lparr>xlim = (- 3, 2), ylim = (1, 5), calls = []\<rparr>"

definition ex_state :: pyplot where
  "ex_state = \<lparr>axs = (\<lambda>h. new_axes)(0 := ex_axes), next_ax = 1, cur_ax = Some 0,
     next_fig = 1, cur_fig = Some 0\<rparr>"

definition ex_gsw :: gsw where
  "ex_gsw = \<lparr>SA_from_SP = (\<lambda>sp p lon lat. map (\<lambda>v. v + 1) sp),
             CT_from_pt = (\<lambda>sa pt. map2 (\<lambda>s t. t + s) sa pt),
             sigma_func = (\<lambda>name s t. s - t)\<rparr>"

definition ex_dens :: dens_args where
  "ex_dens = dens_defaults\<lparr>density_grid := 2, slim := Some (0, 2), tlim := Some (0, 1),
     add_labels := False\<rparr>"

definition ex_dens_levels :: dens_args where
  "ex_dens_levels = ex_dens\<lparr>contour_kwargs := [(''levels'', Ndarray [5, 6])]\<rparr>"

definition empty_state :: pyplot where
  "empty_state = \<lparr>axs = (\<lambda>h. new_axes), next_ax = 0, cur_ax = None,
     next_fig = 0, cur_fig = None\<rparr>"

section \<open>Basic facts about the state\<close>

lemma get_set_lims [simp]:
  "get_xlim a (set_xlim b v st) = (if a = b then v else get_xlim a st)"
  "get_ylim a (set_ylim b v st) = (if a = b then v else get_ylim a st)"
  "get_xlim a (set_ylim b v st) = get_xlim a st"
  "get_ylim a (set_xlim b v st) = get_ylim a st"
  by (simp_all add: get_xlim_def get_ylim_def set_xlim_def set_ylim_def)

lemma calls_ax_call:
  "calls (axs (ax_call a c st) b) = (if b = a then calls (axs st a) @ [c] else calls (axs st b))"
  by (simp add: ax_call_def)

lemma calls_ax_calls:
  "calls (axs (ax_calls a cs st) b) = (if b = a then calls (axs st a) @ cs else calls (axs st b))"
  by (induction cs arbitrary: st) (auto simp: calls_ax_call)

lemma gca_idem: "gca st = (g, st1) \<Longrightarrow> gca st1 = (g, st1)"
  by (auto simp: gca_def gcf_def Let_def split: option.splits prod.splits)

section \<open>Decimal strings\<close>

lemma digit_cases:
  "(d::nat) < 10 \<Longrightarrow>
     d = 0 \<or> d = 1 \<or> d = 2 \<or> d = 3 \<or> d = 4 \<or> d = 5 \<or> d = 6 \<or> d = 7 \<or> d = 8 \<or> d = 9"
  by presburger

lemma digit_val_digit_char: "d < 10 \<Longrightarrow> digit_val (digit_char d) = d"
  by (drule digit_cases) (auto simp: digit_char_def digit_val_def)

lemma digit_char_not_minus: "d < 10 \<Longrightarrow> digit_char d \<noteq> CHR ''-''"
  by (drule digit_cases) (auto simp: digit_char_def)

lemma nat_of_digits_snoc: "nat_of_digits (s @ [c]) = 10 * nat_of_digits s + digit_val c"
  by (simp add: nat_of_digits_def)

lemma nat_of_digits_str_nat: "nat_of_digits (str_nat n) = n"
proof (induction n rule: str_nat.induct)
  case (1 n)
  show ?case
  proof (cases "n < 10")
    case True
    then show ?thesis by (simp add: nat_of_digits_def digit_val_digit_char)
  next
    case False
    then have "nat_of_digits (str_nat (n div 10)) = n div 10" using 1 by simp
    moreover have "str_nat n = str_nat (n div 10) @ [digit_char (n mod 10)]"
      using False by simp
    ultimately show ?thesis
      by (simp add: nat_of_digits_snoc digit_val_digit_char del: str_nat.simps)
  qed
qed

lemma str_nat_hd: "\<exists>c cs. str_nat n = c # cs \<and> c \<noteq> CHR ''-''"
proof (induction n rule: str_nat.induct)
  case (1 n)
  show ?case
  proof (cases "n < 10")
    case True
    then show ?thesis by (simp add: digit_char_not_minus)
  next
    case False
    then obtain c cs where "str_nat (n div 10) = c # cs" "c \<noteq> CHR ''-''" using 1 by blast
    moreover have "str_nat n = str_nat (n div 10) @ [digit_char (n mod 10)]"
      using False by simp
    ultimately show ?thesis by (simp del: str_nat.simps)
  qed
qed

lemma int_of_str_str_int: "int_of_str (str_int i) = i"
proof (cases "i < 0")
  case True
  then show ?thesis
    by (simp add: int_of_str_def str_int_def nat_of_digits_str_nat del: str_nat.simps)
next
  case False
  obtain c cs where h: "str_nat (nat i) = c # cs" "c \<noteq> CHR ''-''" using str_nat_hd by blast
  have "nat_of_digits (c # cs) = nat i" using nat_of_digits_str_nat [of "nat i"] h by simp
  then show ?thesis using False h
    by (simp add: int_of_str_def str_int_def del: str_nat.simps)
qed

section \<open>center\_lim: symmetric limits\<close>

text \<open>
  Claim C3. With \<open>(xlo, xhi)\<close> and \<open>(ylo, yhi)\<close> the current limits of the axes,
  \<^verbatim>\<open>center_lim(ax, 'x')\<close> returns normally and leaves the x limits at \<open>(-mx, mx)\<close>, where
  \<open>mx\<close> is the larger of \<open>|xlo|\<close> and \<open>|xhi|\<close>, and the y limits as they were;
  \<^verbatim>\<open>'y'\<close> does the same to the y limits; \<^verbatim>\<open>'xy'\<close> and \<^verbatim>\<open>'yx'\<close> do both; every other
  value of \<open>which\<close> raises ValueError and leaves the whole state as it was.
\<close>

theorem center_lim_symmetric:
  assumes "get_xlim ax st = (xlo, xhi)" and "get_ylim ax st = (ylo, yhi)"
  defines "mx \<equiv> max \<bar>xlo\<bar> \<bar>xhi\<bar>" and "my \<equiv> max \<bar>ylo\<bar> \<bar>yhi\<bar>"
  shows "(case center_lim ax ''x'' st of (r, st') \<Rightarrow>
            r = Inr () \<and> get_xlim ax st' = (- mx, mx) \<and> get_ylim ax st' = (ylo, yhi))
       \<and> (case center_lim ax ''y'' st of (r, st') \<Rightarrow>
            r = Inr () \<and> get_ylim ax st' = (- my, my) \<and> get_xlim ax st' = (xlo, xhi))
       \<and> (which = ''xy'' \<or> which = ''yx'' \<longrightarrow>
            (case center_lim ax which st of (r, st') \<Rightarrow>
               r = Inr () \<and> get_xlim ax st' = (- mx, mx) \<and> get_ylim ax st' = (- my, my)))
       \<and> (which \<noteq> ''x'' \<and> which \<noteq> ''y'' \<and> which \<noteq> ''xy'' \<and> which \<noteq> ''yx'' \<longrightarrow>
            center_lim ax which st = (Inl ValueError, st))"
  using assms by (auto simp: abs_max_def sym_lim_def)

theorem center_lim_symmetric_witness:
  "get_xlim 0 ex_state = (- 3, 2) \<and> get_ylim 0 ex_state = (1, 5)
   \<and> fst (center_lim 0 ''x'' ex_state) = Inr ()
   \<and> get_xlim 0 (snd (center_lim 0 ''x'' ex_state)) = (- 3, 3)
   \<and> get_ylim 0 (snd (center_lim 0 ''y'' ex_state)) = (- 5, 5)
   \<and> get_xlim 0 (snd (center_lim 0 ''yx'' ex_state)) = (- 3, 3)
   \<and> get_ylim 0 (snd (center_lim 0 ''yx'' ex_state)) = (- 5, 5)
   \<and> center_lim 0 ''xyz'' ex_state = (Inl ValueError, ex_state)"
proof -
  have x: "get_xlim 0 ex_state = (- 3, 2)" and y: "get_ylim 0 ex_state = (1, 5)"
    by (simp_all add: get_xlim_def get_ylim_def ex_state_def ex_axes_def)
  show ?thesis
    using x y center_lim_symmetric [OF x y, of "''yx''"] center_lim_symmetric [OF x y, of "''xyz''"]
    by (simp add: split_beta del: center_lim.simps)
qed

section \<open>depth\_logscale: scale, ticks, labels, inversion\<close>

text \<open>
  Claim C7. \<^verbatim>\<open>depth_logscale\<close> returns normally and issues, on the axes it is given and in
  this order: \<^verbatim>\<open>set_yscale('symlog', linthreshy=yscale)\<close>, \<^verbatim>\<open>set_yticks\<close> with the tick
  list \<open>t\<close> (the argument, or 0, 100, 250, 500, 1000, 2500, 5000 when it is None),
  \<^verbatim>\<open>set_yticklabels\<close> with one label per tick and \<^verbatim>\<open>invert_yaxis\<close>. Each label is the
  decimal string of its tick: read back as a number it gives the tick, and for the default
  ticks the labels are the seven strings listed.
\<close>

theorem depth_logscale_calls:
  fixes ticks :: "int list option"
  defines "t \<equiv> (case ticks of None \<Rightarrow> [0, 100, 250, 500, 1000, 2500, 5000] | Some u \<Rightarrow> u)"
  shows "fst (depth_logscale ax yscale ticks st) = Inr ()
   \<and> calls (axs (snd (depth_logscale ax yscale ticks st)) ax) = calls (axs st ax) @
        [Set_yscale ''symlog'' [(''linthreshy'', yscale)],
         Set_yticks t, Set_yticklabels (map str_int t), Invert_yaxis]
   \<and> map int_of_str (map str_int t) = t
   \<and> map str_int [0, 100, 250, 500, 1000, 2500, 5000]
        = [''0'', ''100'', ''250'', ''500'', ''1000'', ''2500'', ''5000'']"
proof -
  have labels: "map int_of_str (map str_int ts) = ts" for ts
    by (induction ts) (simp_all add: int_of_str_str_int)
  have default: "map str_int [0, 100, 250, 500, 1000, 2500, 5000]
        = [''0'', ''100'', ''250'', ''500'', ''1000'', ''2500'', ''5000'']"
    by (simp add: str_int_def digit_char_def)
  have run: "depth_logscale ax yscale ticks st =
     (Inr (), ax_calls ax
        [Set_yscale ''symlog'' [(''linthreshy'', yscale)],
         Set_yticks t, Set_yticklabels (map str_int t), Invert_yaxis] st)"
    unfolding t_def by (cases ticks) (simp_all add: depth_logscale_def default_ticks_def Let_def)
  show ?thesis
    unfolding run by (simp only: labels default calls_ax_calls snd_conv fst_conv if_True simp_thms)
qed

theorem depth_logscale_calls_witness:
  "calls (axs (snd (depth_logscale 0 (Val (PyInt 400)) None ex_state)) 0) =
     [Set_yscale ''symlog'' [(''linthreshy'', Val (PyInt 400))],
      Set_yticks [0, 100, 250, 500, 1000, 2500, 5000],
      Set_yticklabels [''0'', ''100'', ''250'', ''500'', ''1000'', ''2500'', ''5000''],
      Invert_yaxis]
   \<and> calls (axs (snd (depth_logscale 0 (Val (PyInt 400)) (Some [- 5, 12]) ex_state)) 0) =
     [Set_yscale ''symlog'' [(''linthreshy'', Val (PyInt 400))],
      Set_yticks [- 5, 12], Set_yticklabels [''-5'', ''12''], Invert_yaxis]"
proof -
  have c: "calls (axs ex_state 0) = []" by (simp add: ex_state_def ex_axes_def)
  have l: "map str_int [- 5, 12] = [''-5'', ''12'']" by (simp add: str_int_def digit_char_def)
  show ?thesis
    using depth_logscale_calls [of 0 "Val (PyInt 400)" None ex_state]
      depth_logscale_calls [of 0 "Val (PyInt 400)" "Some [- 5, 12]" ex_state] c l
    by simp
qed

section \<open>box\_plot: the length check\<close>

text \<open>
  Claim C8. A box whose length is not 4 makes \<^verbatim>\<open>box_plot\<close> raise RuntimeError with the
  plotting state exactly as it was: no limit has been read through \<^verbatim>\<open>plt.gca()\<close> (which
  could create an axes) and nothing has been plotted. A box of length 4 never raises.
\<close>

theorem box_plot_length_check:
  "(length box \<noteq> 4 \<longrightarrow> box_plot box ax split_detection kw st = (Inl RuntimeError, st))
   \<and> (length box = 4 \<longrightarrow> fst (box_plot box ax split_detection kw st) = Inr ())"
proof (intro conjI impI)
  assume "length box \<noteq> 4"
  then show "box_plot box ax split_detection kw st = (Inl RuntimeError, st)"
    by (auto simp: box_plot_def split: list.splits)
next
  assume "length box = 4"
  then obtain b0 b1 b2 b3 where "box = [b0, b1, b2, b3]"
    by (auto simp: length_Suc_conv eval_nat_numeral)
  then show "fst (box_plot box ax split_detection kw st) = Inr ()"
    by (simp add: box_plot_def Let_def split_beta)
qed

theorem box_plot_length_check_witness:
  "box_plot [1, 2, 3] (Some 0) None [] ex_state = (Inl RuntimeError, ex_state)
   \<and> box_plot [1, 2, 3, 4, 5] None (Some (PyBool False)) [] empty_state = (Inl RuntimeError, empty_state)
   \<and> fst (box_plot [170, - 170, 10, 20] (Some 0) None [] ex_state) = Inr ()"
  using box_plot_length_check [of "[1, 2, 3]" "Some 0" None "[]" ex_state]
    box_plot_length_check [of "[1, 2, 3, 4, 5]" None "Some (PyBool False)" "[]" empty_state]
    box_plot_length_check [of "[170, - 170, 10, 20]" "Some 0" None "[]" ex_state]
  by simp

section \<open>box\_plot: split detection and the outline\<close>

text \<open>
  A run of \<^verbatim>\<open>box_plot\<close> on a box of four numbers: the limits are those of pyplot's
  current axes, read once before anything is drawn; the plot calls go to \<open>ax\<close>.
\<close>

lemma box_plot_run:
  assumes "gca st = (g, st1)"
  shows "box_plot [b0, b1, b2, b3] ax sd kw st =
     (Inr (), ax_calls (case ax of None \<Rightarrow> g | Some h \<Rightarrow> h)
        (outline (fst (split_flags (case sd of None \<Rightarrow> split_detection_default | Some v \<Rightarrow> v) b0 b1 b2 b3))
                 (snd (split_flags (case sd of None \<Rightarrow> split_detection_default | Some v \<Rightarrow> v) b0 b1 b2 b3))
                 (get_xlim g st1) (get_ylim g st1) b0 b1 b2 b3 kw) st1)"
proof -
  have again: "gca st1 = (g, st1)" using assms by (rule gca_idem)
  show ?thesis
    by (cases ax) (simp_all add: box_plot_def assms again Let_def split_beta)
qed

lemma split_flags_eq:
  "split_flags sd b0 b1 b2 b3 = (truthy sd \<and> b1 < b0, truthy sd \<and> b3 < b2)"
  by (simp add: split_flags_def np_diff_def)

text \<open>
  Claim C1. With a truthy \<^verbatim>\<open>split_detection\<close>, the x flag is exactly
  \<open>box[1] - box[0] < 0\<close>, that is start greater than stop, the y flag exactly
  \<open>box[3] - box[2] < 0\<close>; neither is raised when each stop is at least its start; and these
  are the flags that select what \<^verbatim>\<open>box_plot\<close> draws.
\<close>

theorem split_detected_by_sign:
  assumes "truthy sd"
  shows "split_flags sd b0 b1 b2 b3 = (b1 - b0 < 0, b3 - b2 < 0)
       \<and> (fst (split_flags sd b0 b1 b2 b3) \<longleftrightarrow> b0 > b1)
       \<and> (snd (split_flags sd b0 b1 b2 b3) \<longleftrightarrow> b2 > b3)
       \<and> (b0 \<le> b1 \<and> b2 \<le> b3 \<longrightarrow> split_flags sd b0 b1 b2 b3 = (False, False))
       \<and> box_plot [b0, b1, b2, b3] ax (Some sd) kw st =
           (Inr (), ax_calls (case ax of None \<Rightarrow> fst (gca st) | Some h \<Rightarrow> h)
              (outline (b1 - b0 < 0) (b3 - b2 < 0)
                 (get_xlim (fst (gca st)) (snd (gca st))) (get_ylim (fst (gca st)) (snd (gca st)))
                 b0 b1 b2 b3 kw) (snd (gca st)))"
proof -
  have flags: "split_flags sd b0 b1 b2 b3 = (b1 - b0 < 0, b3 - b2 < 0)"
    using assms by (simp add: split_flags_eq)
  have run: "box_plot [b0, b1, b2, b3] ax (Some sd) kw st =
           (Inr (), ax_calls (case ax of None \<Rightarrow> fst (gca st) | Some h \<Rightarrow> h)
              (outline (b1 - b0 < 0) (b3 - b2 < 0)
                 (get_xlim (fst (gca st)) (snd (gca st))) (get_ylim (fst (gca st)) (snd (gca st)))
                 b0 b1 b2 b3 kw) (snd (gca st)))"
    using box_plot_run [of st "fst (gca st)" "snd (gca st)" b0 b1 b2 b3 ax "Some sd" kw]
    by (simp add: flags)
  show ?thesis using flags run by auto
qed

theorem split_detected_by_sign_witness:
  "truthy (PyStr ''True'')
   \<and> split_flags (PyStr ''True'') 170 (- 170) 10 20 = (True, False)
   \<and> split_flags (PyStr ''True'') 10 20 80 (- 80) = (False, True)
   \<and> split_flags (PyStr ''True'') 10 20 30 30 = (False, False)
   \<and> calls (axs (snd (box_plot [170, - 170, 10, 20] (Some 0) (Some (PyStr ''True'')) [] ex_state)) 0) =
       [Plot [2, 170, 170, 2, 2] [10, 10, 20, 20, 10] [],
        Plot [- 3, - 170, - 170, - 3, - 3] [10, 10, 20, 20, 10] []]"
proof -
  have t: "truthy (PyStr ''True'')" by simp
  have g: "gca ex_state = (0, ex_state)" by (simp add: gca_def gcf_def ex_state_def)
  have c: "calls (axs ex_state 0) = []" "get_xlim 0 ex_state = (- 3, 2)" "get_ylim 0 ex_state = (1, 5)"
    by (simp_all add: ex_state_def ex_axes_def get_xlim_def get_ylim_def)
  show ?thesis
    using split_detected_by_sign [OF t, of 170 "- 170" 10 20 "Some 0" "[]" ex_state]
      split_detected_by_sign [OF t, of 10 20 80 "- 80" "Some 0" "[]" ex_state]
      split_detected_by_sign [OF t, of 10 20 30 30 "Some 0" "[]" ex_state]
    by (simp add: g c outline_def calls_ax_call)
qed

text \<open>
  Claim C2, as amended. With split detection on (\<^verbatim>\<open>split_detection\<close> truthy, as it is when
  omitted), for a box \<open>[b0, b1, b2, b3]\<close> and with \<open>(xlo, xhi)\<close> and \<open>(ylo, yhi)\<close> the limits
  of the current axes, \<^verbatim>\<open>box_plot\<close> returns normally and adds to the axes it draws on: one
  closed five-point outline through the four corners when no coordinate wraps; two closed
  pieces, one reaching \<open>yhi\<close> and one reaching \<open>ylo\<close> (or \<open>xhi\<close> and \<open>xlo\<close>), when only y
  (or only x) wraps; four open three-point corner pieces, each running from an x limit to
  a y limit, when both wrap. A coordinate wraps when its stop is below its start.
\<close>

theorem box_plot_outline:
  fixes ax :: "nat option" and sd :: "pyval option" and b0 b1 b2 b3 :: real
  assumes "gca st = (g, st1)" and "get_xlim g st1 = (xlo, xhi)" and "get_ylim g st1 = (ylo, yhi)"
    and "truthy (case sd of None \<Rightarrow> split_detection_default | Some v \<Rightarrow> v)"
  defines "a \<equiv> (case ax of None \<Rightarrow> g | Some h \<Rightarrow> h)"
  defines "x_wraps \<equiv> b1 < b0" and "y_wraps \<equiv> b3 < b2"
  shows "fst (box_plot [b0, b1, b2, b3] ax sd kw st) = Inr ()
       \<and> calls (axs (snd (box_plot [b0, b1, b2, b3] ax sd kw st)) a) = calls (axs st1 a) @
           (if \<not> x_wraps \<and> \<not> y_wraps then
              [Plot [b0, b0, b1, b1, b0] [b2, b3, b3, b2, b2] kw]
            else if \<not> x_wraps then
              [Plot [b0, b0, b1, b1, b0] [yhi, b2, b2, yhi, yhi] kw,
               Plot [b0, b0, b1, b1, b0] [ylo, b3, b3, ylo, ylo] kw]
            else if \<not> y_wraps then
              [Plot [xhi, b0, b0, xhi, xhi] [b2, b2, b3, b3, b2] kw,
               Plot [xlo, b1, b1, xlo, xlo] [b2, b2, b3, b3, b2] kw]
            else
              [Plot [xhi, b0, b0] [b2, b2, yhi] kw,
               Plot [xlo, b1, b1] [b2, b2, yhi] kw,
               Plot [xhi, b0, b0] [b3, b3, ylo] kw,
               Plot [xlo, b1, b1] [b3, b3, ylo] kw])"
  unfolding box_plot_run [OF assms(1)] a_def x_wraps_def y_wraps_def
  by (simp add: assms(2,3,4) split_flags_eq outline_def calls_ax_calls)

theorem box_plot_outline_witness:
  "gca ex_state = (0, ex_state) \<and> get_xlim 0 ex_state = (- 3, 2) \<and> get_ylim 0 ex_state = (1, 5)
   \<and> truthy split_detection_default
   \<and> calls (axs (snd (box_plot [0, 1, 2, 3] (Some 0) None [] ex_state)) 0) =
       [Plot [0, 0, 1, 1, 0] [2, 3, 3, 2, 2] []]
   \<and> calls (axs (snd (box_plot [0, 1, 3, 2] (Some 0) None [] ex_state)) 0) =
       [Plot [0, 0, 1, 1, 0] [5, 3, 3, 5, 5] [], Plot [0, 0, 1, 1, 0] [1, 2, 2, 1, 1] []]
   \<and> calls (axs (snd (box_plot [1, 0, 2, 3] (Some 0) None [] ex_state)) 0) =
       [Plot [2, 1, 1, 2, 2] [2, 2, 3, 3, 2] [], Plot [- 3, 0, 0, - 3, - 3] [2, 2, 3, 3, 2] []]
   \<and> calls (axs (snd (box_plot [1, 0, 3, 2] (Some 0) None [] ex_state)) 0) =
       [Plot [2, 1, 1] [3, 3, 5] [], Plot [- 3, 0, 0] [3, 3, 5] [],
        Plot [2, 1, 1] [2, 2, 1] [], Plot [- 3, 0, 0] [2, 2, 1] []]"
proof -
  have g: "gca ex_state = (0, ex_state)" by (simp add: gca_def gcf_def ex_state_def)
  have x: "get_xlim 0 ex_state = (- 3, 2)" and y: "get_ylim 0 ex_state = (1, 5)"
    by (simp_all add: ex_state_def ex_axes_def get_xlim_def get_ylim_def)
  have d: "truthy split_detection_default" by (simp add: split_detection_default_def)
  have t: "truthy (case None of None \<Rightarrow> split_detection_default | Some v \<Rightarrow> v)"
    using d by simp
  have c: "calls (axs ex_state 0) = []" by (simp add: ex_state_def ex_axes_def)
  show ?thesis
    using g x y c d
      box_plot_outline [OF g x y t, where ax = "Some 0" and ?b0.0 = 0 and ?b1.0 = 1 and ?b2.0 = 2 and ?b3.0 = 3 and kw = "[]"]
      box_plot_outline [OF g x y t, where ax = "Some 0" and ?b0.0 = 0 and ?b1.0 = 1 and ?b2.0 = 3 and ?b3.0 = 2 and kw = "[]"]
      box_plot_outline [OF g x y t, where ax = "Some 0" and ?b0.0 = 1 and ?b1.0 = 0 and ?b2.0 = 2 and ?b3.0 = 3 and kw = "[]"]
      box_plot_outline [OF g x y t, where ax = "Some 0" and ?b0.0 = 1 and ?b1.0 = 0 and ?b2.0 = 3 and ?b3.0 = 2 and kw = "[]"]
    by simp
qed

text \<open>
  The claim as stated, for every box, fails when split detection is switched off: the
  x start 1 is above the x stop 0, yet with \<^verbatim>\<open>split_detection=False\<close> the one plain
  outline is drawn and nothing reaches the axis limits.
\<close>

theorem box_plot_outline_detection_off:
  "(0::real) < 1
   \<and> fst (box_plot [1, 0, 2, 3] (Some 0) (Some (PyBool False)) [] ex_state) = Inr ()
   \<and> calls (axs (snd (box_plot [1, 0, 2, 3] (Some 0) (Some (PyBool False)) [] ex_state)) 0) =
       [Plot [1, 1, 0, 0, 1] [2, 3, 3, 2, 2] []]"
proof -
  have g: "gca ex_state = (0, ex_state)" by (simp add: gca_def gcf_def ex_state_def)
  have c: "calls (axs ex_state 0) = []" by (simp add: ex_state_def ex_axes_def)
  show ?thesis
    unfolding box_plot_run [OF g]
    by (simp add: split_flags_eq outline_def calls_ax_call c)
qed

text \<open>
  Claim C9. Omitting \<^verbatim>\<open>split_detection\<close> is passing the string \<^verbatim>\<open>'True'\<close>; the strings
  \<^verbatim>\<open>'True'\<close> and \<^verbatim>\<open>'False'\<close> are both truthy, the boolean False is not; two arguments of
  the same truth value give the same run; a truthy argument has the flags computed from
  the box; a falsy one leaves both flags False and the plain rectangle is drawn.
\<close>

theorem split_detection_truthiness:
  "box_plot box ax None kw st = box_plot box ax (Some (PyStr ''True'')) kw st
   \<and> truthy (PyStr ''True'') \<and> truthy (PyStr ''False'') \<and> \<not> truthy (PyBool False)
   \<and> (truthy sd = truthy sd' \<longrightarrow>
        box_plot box ax (Some sd) kw st = box_plot box ax (Some sd') kw st)
   \<and> (truthy sd \<longrightarrow> split_flags sd b0 b1 b2 b3 = (b1 < b0, b3 < b2))
   \<and> (\<not> truthy sd \<longrightarrow>
        split_flags sd b0 b1 b2 b3 = (False, False)
        \<and> fst (box_plot [b0, b1, b2, b3] ax (Some sd) kw st) = Inr ()
        \<and> calls (axs (snd (box_plot [b0, b1, b2, b3] ax (Some sd) kw st))
             (case ax of None \<Rightarrow> fst (gca st) | Some h \<Rightarrow> h))
          = calls (axs (snd (gca st)) (case ax of None \<Rightarrow> fst (gca st) | Some h \<Rightarrow> h))
            @ [Plot [b0, b0, b1, b1, b0] [b2, b3, b3, b2, b2] kw])"
proof -
  have dflt: "box_plot box ax None kw st = box_plot box ax (Some (PyStr ''True'')) kw st"
    by (simp add: box_plot_def split_detection_default_def)
  have only: "box_plot box ax (Some sd) kw st = box_plot box ax (Some sd') kw st"
    if "truthy sd = truthy sd'"
    using that by (simp add: box_plot_def split_flags_eq split: list.split)
  have g: "gca st = (fst (gca st), snd (gca st))" by simp
  have off: "calls (axs (snd (box_plot [b0, b1, b2, b3] ax (Some sd) kw st))
             (case ax of None \<Rightarrow> fst (gca st) | Some h \<Rightarrow> h))
          = calls (axs (snd (gca st)) (case ax of None \<Rightarrow> fst (gca st) | Some h \<Rightarrow> h))
            @ [Plot [b0, b0, b1, b1, b0] [b2, b3, b3, b2, b2] kw]"
       "fst (box_plot [b0, b1, b2, b3] ax (Some sd) kw st) = Inr ()"
    if "\<not> truthy sd"
    unfolding box_plot_run [OF g]
    using that by (simp_all add: split_flags_eq outline_def calls_ax_call)
  show ?thesis
    using dflt only off by (simp add: split_flags_eq)
qed

theorem split_detection_truthiness_witness:
  "truthy (PyStr ''False'') = truthy (PyBool True)
   \<and> box_plot [170, - 170, 10, 20] None None [] empty_state
       = box_plot [170, - 170, 10, 20] None (Some (PyStr ''True'')) [] empty_state
   \<and> box_plot [170, - 170, 10, 20] None (Some (PyStr ''False'')) [] empty_state
       = box_plot [170, - 170, 10, 20] None (Some (PyBool True)) [] empty_state
   \<and> split_flags (PyStr ''False'') 170 (- 170) 10 20 = (True, False)
   \<and> \<not> truthy (PyBool False)
   \<and> split_flags (PyBool False) 170 (- 170) 10 20 = (False, False)
   \<and> calls (axs (snd (box_plot [170, - 170, 10, 20] (Some 0) (Some (PyBool False)) [] ex_state)) 0)
       = [Plot [170, 170, - 170, - 170, 170] [10, 20, 20, 10, 10] []]"
proof -
  have g: "gca ex_state = (0, ex_state)" by (simp add: gca_def gcf_def ex_state_def)
  have c: "calls (axs ex_state 0) = []" by (simp add: ex_state_def ex_axes_def)
  show ?thesis
    using split_detection_truthiness [of "[170, - 170, 10, 20]" None "[]" empty_state
        "PyStr ''False''" "PyBool True" 170 "- 170" 10 20]
      split_detection_truthiness [of "[170, - 170, 10, 20]" "Some 0" "[]" ex_state
        "PyBool False" "PyBool False" 170 "- 170" 10 20]
    by (simp add: g c)
qed

section \<open>plot\_line\_shaded\_std: the line and the band\<close>

lemma np_elementwise_closed:
  assumes "length b = length a \<or> length b = 1"
  shows "np_elementwise f a b =
     Inr (map (\<lambda>i. f (a ! i) (if length b = 1 then b ! 0 else b ! i)) [0..<length a])"
proof (cases "length a = length b")
  case True
  have "map2 f a b = map (\<lambda>i. f (a ! i) (if length b = 1 then b ! 0 else b ! i)) [0..<length a]"
    using True by (intro nth_equalityI) auto
  then show ?thesis using True by (simp add: np_elementwise_def)
next
  case False
  with assms obtain v where b: "b = [v]" by (cases b) auto
  have "map (\<lambda>u. f u v) a = map (\<lambda>i. f (a ! i) v) [0..<length a]"
    by (intro nth_equalityI) auto
  then show ?thesis using False b by (simp add: np_elementwise_def)
qed

lemma broadcastable_same: "broadcastable [n, n, n]"
  by (simp add: broadcastable_def)

text \<open>
  Claim C6, as amended. Let \<open>x\<close> and \<open>y\<close> have one length and let \<open>std_y\<close> have that length
  or a single element. Then \<open>y - std_y\<close> and \<open>y + std_y\<close> are the entrywise difference
  and sum (the single deviation used at every entry), \<^verbatim>\<open>plot_line_shaded_std\<close> returns
  the handle of the line and adds two calls to the axes it draws on: the line,
  \<^verbatim>\<open>plot(x, y)\<close>, and the band, \<^verbatim>\<open>fill_between\<close> along \<open>x\<close> between \<open>y - std_y\<close> and
  \<open>y + std_y\<close>; with \<open>horizontal\<close> false the line is \<^verbatim>\<open>plot(y, x)\<close> and the band is
  \<^verbatim>\<open>fill_betweenx\<close> with the same three arrays.
\<close>

theorem shaded_std_band:
  fixes ax :: "nat option" and st :: pyplot and x y std_y :: "real list"
    and line_kwargs fill_kwargs :: kwargs and p_color :: kwval
  assumes "length x = length y" and "length std_y = length y \<or> length std_y = 1"
  defines "a \<equiv> (case ax of None \<Rightarrow> fst (gca st) | Some h \<Rightarrow> h)"
    and "st1 \<equiv> (case ax of None \<Rightarrow> snd (gca st) | Some h \<Rightarrow> st)"
    and "line_kw \<equiv> dict_update [] line_kwargs"
    and "fill_kw \<equiv> dict_update [(''color'', p_color), (''alpha'', Val (PyFloat 0.35))] fill_kwargs"
    and "dev \<equiv> (\<lambda>i. if length std_y = 1 then std_y ! 0 else std_y ! i)"
  defines "lower \<equiv> map (\<lambda>i. y ! i - dev i) [0..<length y]"
    and "upper \<equiv> map (\<lambda>i. y ! i + dev i) [0..<length y]"
  shows "np_sub y std_y = Inr lower \<and> np_add y std_y = Inr upper
       \<and> fst (plot_line_shaded_std x y std_y horizontal ax line_kwargs fill_kwargs p_color st)
           = Inr (length (calls (axs st1 a)))
       \<and> calls (axs (snd (plot_line_shaded_std x y std_y horizontal ax line_kwargs fill_kwargs p_color st)) a)
           = calls (axs st1 a) @
             (if horizontal then [Plot x y line_kw, Fill_between x lower upper fill_kw]
              else [Plot y x line_kw, Fill_betweenx x lower upper fill_kw])"
proof -
  have s: "np_sub y std_y = Inr lower" and p: "np_add y std_y = Inr upper"
    using np_elementwise_closed [OF assms(2)]
    by (simp_all add: np_sub_def np_add_def lower_def upper_def dev_def)
  have len: "length lower = length x" "length upper = length x"
    using assms(1) by (simp_all add: lower_def upper_def)
  have run: "plot_line_shaded_std x y std_y horizontal ax line_kwargs fill_kwargs p_color st =
      (Inr (length (calls (axs st1 a))),
       ax_calls a (if horizontal then [Plot x y line_kw, Fill_between x lower upper fill_kw]
              else [Plot y x line_kw, Fill_betweenx x lower upper fill_kw]) st1)"
    unfolding plot_line_shaded_std_def a_def st1_def line_kw_def fill_kw_def
    using assms(1)
    by (cases ax)
      (simp_all add: s p len Let_def split_beta ax_plot_def ax_fill_between_def
        ax_fill_betweenx_def broadcastable_same)
  show ?thesis
    unfolding run using s p by (simp add: calls_ax_calls)
qed

theorem shaded_std_band_witness:
  "calls (axs (snd (plot_line_shaded_std [0, 1] [5, 7] [1, 2] True (Some 0)
        [(''lw'', Val (PyInt 2))] [(''alpha'', Val (PyFloat 0.5))] (Val (PyStr ''C0'')) ex_state)) 0)
     = [Plot [0, 1] [5, 7] [(''lw'', Val (PyInt 2))],
        Fill_between [0, 1] [4, 5] [6, 9] [(''color'', Val (PyStr ''C0'')), (''alpha'', Val (PyFloat 0.5))]]
   \<and> calls (axs (snd (plot_line_shaded_std [0, 1] [5, 7] [1] False (Some 0)
        [] [] (Val (PyStr ''C0'')) ex_state)) 0)
     = [Plot [5, 7] [0, 1] [],
        Fill_betweenx [0, 1] [4, 6] [6, 8] [(''color'', Val (PyStr ''C0'')), (''alpha'', Val (PyFloat 0.35))]]"
proof -
  have l: "length [0, 1 :: real] = length [5, 7 :: real]" by simp
  have s1: "length [1, 2 :: real] = length [5, 7 :: real] \<or> length [1, 2 :: real] = 1" by simp
  have s2: "length [1 :: real] = length [5, 7 :: real] \<or> length [1 :: real] = 1" by simp
  have c: "calls (axs ex_state 0) = []" by (simp add: ex_state_def ex_axes_def)
  show ?thesis
    using shaded_std_band [OF l s1, where horizontal = True and ax = "Some 0"
        and line_kwargs = "[(''lw'', Val (PyInt 2))]" and fill_kwargs = "[(''alpha'', Val (PyFloat 0.5))]"
        and p_color = "Val (PyStr ''C0'')" and st = ex_state]
      shaded_std_band [OF l s2, where horizontal = False and ax = "Some 0"
        and line_kwargs = "[]" and fill_kwargs = "[]"
        and p_color = "Val (PyStr ''C0'')" and st = ex_state]
    by (simp add: c upt_conv_Cons)
qed

text \<open>
  The claim as stated, for every \<open>x\<close>, \<open>y\<close> and \<open>std_y\<close>, fails where the shapes do not
  agree. With two values and three deviations the line is drawn, then the subtraction
  raises ValueError and no band is drawn. With three coordinates and two values
  \<^verbatim>\<open>plot\<close> itself raises ValueError and nothing at all is drawn.
\<close>

theorem shaded_std_shape_mismatch:
  "fst (plot_line_shaded_std [0, 1] [5, 7] [1, 2, 3] True (Some 0) [] []
        (Val (PyStr ''C0'')) ex_state) = Inl ValueError
   \<and> calls (axs (snd (plot_line_shaded_std [0, 1] [5, 7] [1, 2, 3] True (Some 0) [] []
        (Val (PyStr ''C0'')) ex_state)) 0) = [Plot [0, 1] [5, 7] []]
   \<and> plot_line_shaded_std [0, 1, 2] [5, 7] [1, 2] True (Some 0) [] []
        (Val (PyStr ''C0'')) ex_state = (Inl ValueError, ex_state)
   \<and> calls (axs ex_state 0) = []"
  by (simp add: plot_line_shaded_std_def np_sub_def np_elementwise_def calls_ax_call ax_plot_def
      ex_state_def ex_axes_def)

section \<open>tsdiagram: the missing coordinate\<close>

text \<open>Handles: what \<^verbatim>\<open>plt.gca()\<close> and \<^verbatim>\<open>plt.gcf()\<close> leave alone.\<close>

lemma ax_call_fields [simp]:
  "next_ax (ax_call a c st) = next_ax st"
  "cur_ax (ax_call a c st) = cur_ax st"
  "next_fig (ax_call a c st) = next_fig st"
  "cur_fig (ax_call a c st) = cur_fig st"
  by (simp_all add: ax_call_def)

lemma gcf_fields [simp]:
  "axs (snd (gcf st)) = axs st"
  "next_ax (snd (gcf st)) = next_ax st"
  "cur_ax (snd (gcf st)) = cur_ax st"
  by (simp_all add: gcf_def split: option.splits)

lemma gcf_current: "cur_fig st \<noteq> None \<Longrightarrow> gcf st = (the (cur_fig st), st)"
  by (auto simp: gcf_def)

lemma gca_current: "cur_ax st \<noteq> None \<Longrightarrow> cur_fig st \<noteq> None \<Longrightarrow> gca st = (the (cur_ax st), st)"
  by (auto simp: gca_def gcf_def)

lemma gca_old_axes: "b < next_ax st \<Longrightarrow> axs (snd (gca st)) b = axs st b"
  by (auto simp: gca_def gcf_def Let_def split: option.splits)

lemma gca_axes_cases: "axs (snd (gca st)) b = axs st b \<or> axs (snd (gca st)) b = new_axes"
  by (auto simp: gca_def gcf_def Let_def split: option.splits)

lemma gca_next_ax: "next_ax st \<le> next_ax (snd (gca st))"
  by (auto simp: gca_def gcf_def Let_def split: option.splits)

lemma gca_allocated:
  "(case cur_ax st of None \<Rightarrow> True | Some c \<Rightarrow> c < next_ax st) \<Longrightarrow> fst (gca st) < next_ax (snd (gca st))"
  by (auto simp: gca_def gcf_def Let_def split: option.splits)

lemma ts_convert_missing:
  "lon = None \<or> lat = None \<or> pressure = None \<Longrightarrow>
     ts_convert g salt temp lon lat pressure True = Inl ValueError"
  by (auto simp: ts_convert_def split: option.splits)

text \<open>
  Claim C10. With \<^verbatim>\<open>convert_teos10\<close> true and one of \<open>lon\<close>, \<open>lat\<close>, \<open>pressure\<close> None,
  \<^verbatim>\<open>tsdiagram\<close> raises ValueError. The state it leaves is the one after \<open>ax\<close> and \<open>fig\<close>
  were resolved: every axes that existed is as it was, an axes that did not is either
  untouched or the fresh, empty one \<^verbatim>\<open>plt.gca()\<close> made, so no label is set and nothing
  is scattered; and when \<open>ax\<close> and \<open>fig\<close> are passed, or pyplot has a current axes and
  figure, the state is exactly the one before the call.
\<close>

theorem tsdiagram_missing_coordinate:
  fixes ax fig :: "nat option" and st :: pyplot
  assumes "lon = None \<or> lat = None \<or> pressure = None"
  defines "st1 \<equiv> (case ax of None \<Rightarrow> snd (gca st) | Some h \<Rightarrow> st)"
  defines "st2 \<equiv> (case fig of None \<Rightarrow> snd (gcf st1) | Some f \<Rightarrow> st1)"
  shows "tsdiagram g salt temp color sz lon lat pressure True ts_kwargs ax fig
           draw_density_contours draw_cbar labels kw st = (Inl ValueError, st2)
       \<and> (\<forall>b. b < next_ax st \<longrightarrow> axs st2 b = axs st b)
       \<and> (\<forall>b. axs st2 b = axs st b \<or> axs st2 b = new_axes)
       \<and> (ax \<noteq> None \<and> fig \<noteq> None \<longrightarrow> st2 = st)
       \<and> (cur_ax st \<noteq> None \<and> cur_fig st \<noteq> None \<longrightarrow> st2 = st)"
proof -
  have run: "tsdiagram g salt temp color sz lon lat pressure True ts_kwargs ax fig
           draw_density_contours draw_cbar labels kw st = (Inl ValueError, st2)"
    unfolding tsdiagram_def st1_def st2_def
    by (cases ax; cases fig) (simp_all add: ts_convert_missing [OF assms(1)] split_beta)
  have a2: "axs st2 = axs st1" unfolding st2_def by (cases fig) simp_all
  have old: "axs st2 b = axs st b" if "b < next_ax st" for b
    unfolding a2 st1_def using that by (cases ax) (simp_all add: gca_old_axes)
  have any: "axs st2 b = axs st b \<or> axs st2 b = new_axes" for b
    unfolding a2 st1_def using gca_axes_cases [of st b] by (cases ax) simp_all
  have given: "st2 = st" if "ax \<noteq> None \<and> fig \<noteq> None"
    using that unfolding st2_def st1_def by auto
  have current: "st2 = st" if "cur_ax st \<noteq> None \<and> cur_fig st \<noteq> None"
    using that unfolding st2_def st1_def
    by (cases ax; cases fig) (simp_all add: gca_current gcf_current)
  show ?thesis using run old any given current by blast
qed

theorem tsdiagram_missing_coordinate_witness:
  "tsdiagram ex_gsw [35] [10] (Val PyNone) (Val PyNone) (Some [0]) None (Some [100]) True
      dens_defaults (Some 0) (Some 0) True True True [] ex_state = (Inl ValueError, ex_state)
   \<and> fst (tsdiagram ex_gsw [35] [10] (Val PyNone) (Val PyNone) None None None True
      dens_defaults None None True True True [] empty_state) = Inl ValueError
   \<and> axs (snd (tsdiagram ex_gsw [35] [10] (Val PyNone) (Val PyNone) None None None True
      dens_defaults None None True True True [] empty_state)) 0 = new_axes"
proof -
  have m1: "Some [0::real] = None \<or> (None :: real list option) = None \<or> Some [100::real] = None"
    by simp
  have m2: "(None :: real list option) = None \<or> (None :: real list option) = None
      \<or> (None :: real list option) = None"
    by simp
  show ?thesis
    using tsdiagram_missing_coordinate [OF m1, where ax = "Some 0" and fig = "Some 0" and st = ex_state
        and g = ex_gsw and salt = "[35]" and temp = "[10]" and color = "Val PyNone" and sz = "Val PyNone"
        and ts_kwargs = dens_defaults and draw_density_contours = True and draw_cbar = True
        and labels = True and kw = "[]"]
      tsdiagram_missing_coordinate [OF m2, where ax = None and fig = None and st = empty_state
        and g = ex_gsw and salt = "[35]" and temp = "[10]" and color = "Val PyNone" and sz = "Val PyNone"
        and ts_kwargs = dens_defaults and draw_density_contours = True and draw_cbar = True
        and labels = True and kw = "[]"]
    by (simp add: gca_def gcf_def empty_state_def)
qed

section \<open>tsdiagram: what the scatter receives\<close>

text \<open>The steps after the scatter only add calls to an existing axes.\<close>

lemma ts_cbar_appends:
  "\<exists>rest. calls (axs (snd (ts_cbar draw_cbar color fig a s st)) b) = calls (axs st b) @ rest"
  by (auto simp: ts_cbar_def calls_ax_call split: kwval.splits pyval.splits)

lemma dens_label_appends:
  assumes "b < next_ax st"
  shows "\<exists>rest. calls (axs (snd (dens_label args a kw st)) b) = calls (axs st b) @ rest"
  using assms
  by (auto simp: dens_label_def split_beta calls_ax_call gca_old_axes split: option.splits)

lemma draw_dens_appends:
  assumes "b < next_ax st"
  shows "\<exists>rest. calls (axs (snd (draw_dens_contours_teos10 g args (Some a) st)) b)
           = calls (axs st b) @ rest"
proof -
  have two: "\<exists>rest. calls (axs (snd (dens_label args a kw (ax_call a c2 (ax_call a c1 st)))) b)
       = calls (axs st b) @ rest"
    for c1 c2 kw
  proof -
    have "b < next_ax (ax_call a c2 (ax_call a c1 st))" using assms by simp
    from dens_label_appends [OF this, of args a kw]
    show ?thesis by (auto simp: calls_ax_call)
  qed
  show ?thesis
    unfolding draw_dens_contours_teos10_def ax_contour_def
    using two
    by (simp add: Let_def split_beta split: sum.splits option.splits)
qed

text \<open>
  Claim C5. Let \<open>a\<close> be the axes drawn on, an existing axes, and \<open>old\<close> what it held. With
  \<^verbatim>\<open>convert_teos10\<close> true and \<open>lon\<close>, \<open>lat\<close>, \<open>pressure\<close> given, the axes holds after the call
  the old calls, the two TEOS-10 labels when labels are asked for, then a scatter of
  \<^verbatim>\<open>SA_from_SP(salt, pressure, lon, lat)\<close> against \<^verbatim>\<open>CT_from_pt\<close> of that salinity and
  \<open>temp\<close>, then whatever the contours and the colorbar add (also when one of those
  raises). With \<^verbatim>\<open>convert_teos10\<close> false the scatter is of \<open>salt\<close> and \<open>temp\<close> as passed.
\<close>

theorem tsdiagram_scatter_values:
  fixes ax fig :: "nat option" and st :: pyplot and kw :: kwargs and sz color :: kwval
  assumes "case cur_ax st of None \<Rightarrow> True | Some c \<Rightarrow> c < next_ax st"
    and "case ax of None \<Rightarrow> True | Some h \<Rightarrow> h < next_ax st"
  defines "a \<equiv> (case ax of None \<Rightarrow> fst (gca st) | Some h \<Rightarrow> h)"
    and "st1 \<equiv> (case ax of None \<Rightarrow> snd (gca st) | Some h \<Rightarrow> st)"
    and "skw \<equiv> dict_update [(''s'', sz), (''c'', color)] kw"
  defines "old \<equiv> calls (axs st1 a)"
  shows "(\<exists>rest. calls (axs (snd (tsdiagram g salt temp color sz (Some lo) (Some la) (Some p) True
              ts_kwargs ax fig draw_density_contours draw_cbar labels kw st)) a) =
            old @ (if labels then [Set_xlabel salt_label_teos10, Set_ylabel temp_label_teos10] else [])
              @ [Scatter (SA_from_SP g salt p lo la)
                   (CT_from_pt g (SA_from_SP g salt p lo la) temp) skw] @ rest)
       \<and> (\<exists>rest. calls (axs (snd (tsdiagram g salt temp color sz lon lat pressure False
              ts_kwargs ax fig draw_density_contours draw_cbar labels kw st)) a) =
            old @ (if labels then [Set_xlabel salt_label_plain, Set_ylabel temp_label_plain] else [])
              @ [Scatter salt temp skw] @ rest)"
proof -
  define st2 where "st2 = (case fig of None \<Rightarrow> snd (gcf st1) | Some f \<Rightarrow> st1)"
  define f where "f = (case fig of None \<Rightarrow> fst (gcf st1) | Some f \<Rightarrow> f)"
  have alloc1: "a < next_ax st1"
    unfolding a_def st1_def using assms(1,2) by (cases ax) (simp_all add: gca_allocated)
  have alloc: "a < next_ax st2" and old2: "calls (axs st2 a) = old"
    unfolding st2_def old_def using alloc1 by (cases fig; simp)+
  have tail: "\<exists>rest. calls (axs (snd
        (if draw_density_contours then
           (case draw_dens_contours_teos10 g ts_kwargs (Some a) st4 of
              (Inl e, st) \<Rightarrow> (Inl e, st)
            | (Inr u, st) \<Rightarrow> ts_cbar draw_cbar color f a s st)
         else ts_cbar draw_cbar color f a s st4)) a) = calls (axs st4 a) @ rest"
    if n: "a < next_ax st4" for st4 s
  proof (cases draw_density_contours)
    case False
    then show ?thesis using ts_cbar_appends [of draw_cbar color f a s st4 a] by simp
  next
    case True
    obtain r st5 where d: "draw_dens_contours_teos10 g ts_kwargs (Some a) st4 = (r, st5)"
      by (cases "draw_dens_contours_teos10 g ts_kwargs (Some a) st4")
    obtain rest1 where r1: "calls (axs st5 a) = calls (axs st4 a) @ rest1"
      using draw_dens_appends [OF n, of g ts_kwargs a] d by auto
    show ?thesis
    proof (cases r)
      case (Inl e)
      then show ?thesis using True d r1 by simp
    next
      case (Inr u)
      obtain rest2 where "calls (axs (snd (ts_cbar draw_cbar color f a s st5)) a)
          = calls (axs st5 a) @ rest2"
        using ts_cbar_appends [of draw_cbar color f a s st5 a] by auto
      then show ?thesis using True d r1 Inr by simp
    qed
  qed
  have run: "tsdiagram g salt' temp' color sz lon' lat' pressure' conv
              ts_kwargs ax fig draw_density_contours draw_cbar labels kw st =
      (case ts_convert g salt' temp' lon' lat' pressure' conv of
          Inl e \<Rightarrow> (Inl e, st2)
        | Inr (temp_label, salt_label, sa, ct) \<Rightarrow>
            (let st3 = (if labels
                    then ax_call a (Set_ylabel temp_label) (ax_call a (Set_xlabel salt_label) st2)
                    else st2);
                 s = length (calls (axs st3 a));
                 st4 = ax_call a (Scatter sa ct skw) st3
             in if draw_density_contours then
               (case draw_dens_contours_teos10 g ts_kwargs (Some a) st4 of
                  (Inl e, st) \<Rightarrow> (Inl e, st)
                | (Inr u, st) \<Rightarrow> ts_cbar draw_cbar color f a s st)
             else ts_cbar draw_cbar color f a s st4))"
    for salt' temp' lon' lat' pressure' conv
    unfolding tsdiagram_def a_def st1_def st2_def f_def skw_def
    by (cases ax; cases fig) (simp_all add: split_beta Let_def split: sum.splits)
  have conv: "ts_convert g salt temp (Some lo) (Some la) (Some p) True =
      Inr (temp_label_teos10, salt_label_teos10, SA_from_SP g salt p lo la,
           CT_from_pt g (SA_from_SP g salt p lo la) temp)"
    by (simp add: ts_convert_def Let_def)
  have plain: "ts_convert g salt temp lon lat pressure False =
      Inr (temp_label_plain, salt_label_plain, salt, temp)"
    by (simp add: ts_convert_def)
  have part: "\<exists>rest. calls (axs (snd
        (let st3 = (if labels
                    then ax_call a (Set_ylabel tl) (ax_call a (Set_xlabel sl) st2)
                    else st2);
                 s = length (calls (axs st3 a));
                 st4 = ax_call a (Scatter sa ct skw) st3
             in if draw_density_contours then
               (case draw_dens_contours_teos10 g ts_kwargs (Some a) st4 of
                  (Inl e, st) \<Rightarrow> (Inl e, st)
                | (Inr u, st) \<Rightarrow> ts_cbar draw_cbar color f a s st)
             else ts_cbar draw_cbar color f a s st4)) a) =
          old @ (if labels then [Set_xlabel sl, Set_ylabel tl] else []) @ [Scatter sa ct skw] @ rest"
    for tl sl sa ct
  proof -
    define st3 where "st3 = (if labels
                    then ax_call a (Set_ylabel tl) (ax_call a (Set_xlabel sl) st2)
                    else st2)"
    define st4 where "st4 = ax_call a (Scatter sa ct skw) st3"
    have n4: "a < next_ax st4" unfolding st4_def st3_def using alloc by simp
    have c4: "calls (axs st4 a) = old @ (if labels then [Set_xlabel sl, Set_ylabel tl] else [])
        @ [Scatter sa ct skw]"
      unfolding st4_def st3_def using old2 by (simp add: calls_ax_call)
    from tail [OF n4, of "length (calls (axs st3 a))"]
    show ?thesis unfolding Let_def st3_def [symmetric] st4_def [symmetric] c4 by simp
  qed
  show ?thesis
    unfolding run conv plain using part by simp
qed

theorem tsdiagram_scatter_values_witness:
  "(\<exists>rest. calls (axs (snd (tsdiagram ex_gsw [35] [10] (Val PyNone) (Val PyNone)
        (Some [0]) (Some [0]) (Some [100]) True dens_defaults (Some 0) (Some 0) True True True []
        ex_state)) 0) =
      [Set_xlabel salt_label_teos10, Set_ylabel temp_label_teos10,
       Scatter [36] [46] [(''s'', Val PyNone), (''c'', Val PyNone)]] @ rest)
   \<and> (\<exists>rest. calls (axs (snd (tsdiagram ex_gsw [35] [10] (Val PyNone) (Val PyNone)
        None None None False dens_defaults (Some 0) (Some 0) True True True []
        ex_state)) 0) =
      [Set_xlabel salt_label_plain, Set_ylabel temp_label_plain,
       Scatter [35] [10] [(''s'', Val PyNone), (''c'', Val PyNone)]] @ rest)"
proof -
  have w: "case cur_ax ex_state of None \<Rightarrow> True | Some c \<Rightarrow> c < next_ax ex_state"
    by (simp add: ex_state_def)
  have h: "case Some (0::nat) of None \<Rightarrow> True | Some h \<Rightarrow> h < next_ax ex_state"
    by (simp add: ex_state_def)
  have c: "calls (axs ex_state 0) = []" by (simp add: ex_state_def ex_axes_def)
  show ?thesis
    using tsdiagram_scatter_values [OF w h, where g = ex_gsw and salt = "[35]" and temp = "[10]"
        and color = "Val PyNone" and sz = "Val PyNone" and lo = "[0]" and la = "[0]" and p = "[100]"
        and lon = None and lat = None and pressure = None and ts_kwargs = dens_defaults
        and fig = "Some 0" and draw_density_contours = True and draw_cbar = True and labels = True
        and kw = "[]"]
    by (simp add: c ex_gsw_def)
qed

section \<open>draw\_dens\_contours\_teos10: the grid and the levels\<close>

text \<open>Keyword dictionaries: what an update keeps.\<close>

lemma dict_get_set: "dict_get (dict_set k v d) k' = (if k' = k then Some v else dict_get d k')"
  by (induction d) auto

lemma dict_get_update_absent:
  "dict_get e k = None \<Longrightarrow> dict_get (dict_update d e) k = dict_get d k"
  by (induction e arbitrary: d) (auto simp: dict_get_set split: if_splits)

lemma dict_get_update_present:
  "dict_get d k \<noteq> None \<Longrightarrow> dict_get (dict_update d e) k \<noteq> None"
  by (induction e arbitrary: d) (auto simp: dict_get_set)

lemma c_kwarg_levels:
  "dict_get (kwargs a) ''levels'' = None \<Longrightarrow> dict_get (contour_kwargs a) ''levels'' = None \<Longrightarrow>
     dict_get (c_kwarg levels a) ''levels'' = Some (Ndarray levels)"
  by (simp add: c_kwarg_def dict_get_update_absent)

lemma c_kwarg_colors: "dict_get (c_kwarg levels a) ''colors'' \<noteq> None"
  by (simp add: c_kwarg_def dict_get_update_present)

text \<open>The numpy helpers in closed form.\<close>

lemma np_linspace_even:
  assumes "1 \<le> n"
  shows "np_linspace a b n = Inr (map (\<lambda>j. a + real j * ((b - a) / real_of_int (n - 1))) [0..<nat n])"
proof (cases "n = 1")
  case True
  then show ?thesis by (simp add: np_linspace_def)
next
  case False
  with assms have n: "1 < n" by simp
  define m where "m = nat n - 1"
  have nm: "nat n = Suc m" and rm: "real_of_int (n - 1) = real m" and m0: "m \<noteq> 0"
    using n by (simp_all add: m_def)
  have last: "a + real m * ((b - a) / real m) = b" using m0 by simp
  have upd: "(map (\<lambda>j. a + real j * ((b - a) / real m)) [0..<Suc m])[m := b]
      = map (\<lambda>j. a + real j * ((b - a) / real m)) [0..<Suc m]"
    using m0 by (intro nth_equalityI) (auto simp: nth_list_update simp del: upt_Suc)
  have "np_linspace a b n =
      Inr ((map (\<lambda>i. a + real i * ((b - a) / real_of_int (n - 1))) [0..<nat n])[nat n - 1 := b])"
    using n by (simp add: np_linspace_def Let_def)
  also have "nat n - 1 = m" by (simp add: m_def)
  finally show ?thesis unfolding nm rm upd .
qed

lemma on_grids_meshgrid:
  "on_grids f (fst (np_meshgrid x y)) (snd (np_meshgrid x y)) = map (\<lambda>v. map (\<lambda>u. f u v) x) y"
proof -
  have inner: "map2 f x (map (\<lambda>u. v) x) = map (\<lambda>u. f u v) x" for v
    by (induction x) simp_all
  show ?thesis
    unfolding on_grids_def np_meshgrid_def fst_conv snd_conv
    by (induction y) (simp_all add: inner)
qed

lemma on_grids_meshgrid_swapped:
  "on_grids f (snd (np_meshgrid x y)) (fst (np_meshgrid x y)) = map (\<lambda>v. map (\<lambda>u. f v u) x) y"
proof -
  have inner: "map2 f (map (\<lambda>u. v) x) x = map (\<lambda>u. f v u) x" for v
    by (induction x) simp_all
  show ?thesis
    unfolding on_grids_def np_meshgrid_def fst_conv snd_conv
    by (induction y) (simp_all add: inner)
qed

lemma dens_sig_salt_on_x:
  "salt_on_x a \<Longrightarrow> dens_sig g a x y = map (\<lambda>t. map (\<lambda>s. sigma_func g (sigma a) s t) x) y"
  by (simp add: dens_sig_def dens_grids_def split_beta on_grids_meshgrid)

text \<open>
  With \<^verbatim>\<open>salt_on_x\<close> false the source still builds \<open>x\<close> from the salt limits and \<open>y\<close> from
  the temperature limits (lines 195 and 196 repeat lines 188 and 189) but unpacks the
  grids as \<^verbatim>\<open>tt, ss = np.meshgrid(x, y)\<close>: the equation of state then receives the
  samples of \<open>y\<close> as salinity and those of \<open>x\<close> as temperature.
\<close>

lemma dens_sig_salt_on_y:
  "\<not> salt_on_x a \<Longrightarrow> dens_sig g a x y = map (\<lambda>t. map (\<lambda>s. sigma_func g (sigma a) t s) x) y"
  by (simp add: dens_sig_def dens_grids_def split_beta on_grids_meshgrid_swapped)

lemma arr_min_Min:
  assumes "concat a \<noteq> []"
  shows "arr_min a = Inr (Min (set (concat a)))"
proof (cases "concat a")
  case Nil
  then show ?thesis using assms by simp
next
  case (Cons v vs)
  then show ?thesis using Min.set_eq_fold [of v vs] by (simp add: arr_min_def del: set_concat)
qed

lemma arr_max_Max:
  assumes "concat a \<noteq> []"
  shows "arr_max a = Inr (Max (set (concat a)))"
proof (cases "concat a")
  case Nil
  then show ?thesis using assms by simp
next
  case (Cons v vs)
  then show ?thesis using Max.set_eq_fold [of v vs] by (simp add: arr_max_def del: set_concat)
qed

lemma np_arange_progression:
  fixes start stop step :: real
  assumes "0 < step"
  defines "m \<equiv> nat \<lceil>(stop - start) / step\<rceil>"
  shows "np_arange start stop step = Inr (map (\<lambda>k. start + real k * step) [0..<m])"
    and "k < m \<Longrightarrow> start + real k * step < stop"
    and "stop \<le> start + real m * step"
proof -
  show "np_arange start stop step = Inr (map (\<lambda>k. start + real k * step) [0..<m])"
    using assms(1) by (simp add: np_arange_def m_def)
  show "start + real k * step < stop" if "k < m"
  proof -
    have "int k < \<lceil>(stop - start) / step\<rceil>" using that by (simp add: m_def)
    then have "real k < (stop - start) / step" by (simp add: less_ceiling_iff)
    then have "real k * step < stop - start" using assms(1) by (simp add: pos_less_divide_eq)
    then show ?thesis by simp
  qed
  show "stop \<le> start + real m * step"
  proof -
    have "(stop - start) / step \<le> real_of_int \<lceil>(stop - start) / step\<rceil>" by simp
    also have "\<dots> \<le> real m" by (simp add: m_def)
    finally have "stop - start \<le> real m * step" using assms(1) by (simp add: pos_divide_le_eq)
    then show ?thesis by simp
  qed
qed

lemma dens_label_ok:
  "dict_get kw ''colors'' \<noteq> None \<Longrightarrow> fst (dens_label a h kw st) = Inr ()"
  by (auto simp: dens_label_def split_beta split: option.splits)

lemma draw_dens_resolve:
  "draw_dens_contours_teos10 g a ax st =
     draw_dens_contours_teos10 g a (Some (case ax of None \<Rightarrow> fst (gca st) | Some h \<Rightarrow> h))
       (case ax of None \<Rightarrow> snd (gca st) | Some h \<Rightarrow> st)"
  by (cases ax) (simp_all add: draw_dens_contours_teos10_def split_beta)

lemma draw_dens_run:
  assumes "sigma a \<in> set sigma_names" and "dens_xy a h st = Inr (x, y)"
    and "dens_levels (dens_sig g a x y) (dens_interval a) = Inr levels"
    and "2 \<le> length (dens_sig g a x y) \<and> 2 \<le> length x \<and> length y = length (dens_sig g a x y)
         \<and> list_all (\<lambda>row. length row = length x) (dens_sig g a x y)"
  shows "draw_dens_contours_teos10 g a (Some h) st =
     dens_label a h (c_kwarg levels a)
       (ax_call h (Clabel (length (calls (axs st h))) (c_label_kwarg a))
          (ax_call h (Contour x y (dens_sig g a x y) (c_kwarg levels a)) st))"
  using assms by (simp add: draw_dens_contours_teos10_def ax_contour_def Let_def)

text \<open>
  Claim C4, as amended. Let the axes drawn on be an existing one (\<open>ax\<close>, or pyplot's
  current axes when \<open>ax\<close> is None). Let the call reach the contour: \<open>sigma\<close> names one of
  the five functions, \<open>density_grid\<close> is at least 2 and \<open>dens_interval\<close> is positive; let
  salt be on the x axis; and let neither \<open>kwargs\<close> nor \<open>contour_kwargs\<close> carry \<^verbatim>\<open>levels\<close>. Then the
  function returns normally and the axes receives \<^verbatim>\<open>contour(x, y, sig, ...)\<close> followed by
  \<^verbatim>\<open>clabel\<close>, where \<open>x\<close> and \<open>y\<close> are the \<open>density_grid\<close> evenly spaced samples of the
  salt and temperature limits (the arguments, or the x and y limits of the axes),
  \<open>sig\<close> has \<open>density_grid\<close> rows of \<open>density_grid\<close> entries, entry \<open>j\<close> of row \<open>i\<close> being the
  equation of state at salinity \<open>x ! j\<close> and temperature \<open>y ! i\<close>, and the \<^verbatim>\<open>levels\<close> passed
  are \<open>lo + k * dens_interval\<close> for \<open>k = 0, 1, ...\<close> with \<open>lo\<close> the floor of the least
  entry of \<open>sig\<close>: all of them below \<open>hi\<close>, the ceiling of the greatest entry, the next
  one not below it, and the first one \<open>lo\<close> itself when \<open>lo < hi\<close>.
\<close>

theorem dens_contours_grid_and_levels:
  fixes a :: dens_args and ax :: "nat option" and st :: pyplot and g :: gsw
  assumes wf: "case cur_ax st of None \<Rightarrow> True | Some c \<Rightarrow> c < next_ax st"
    and axok: "case ax of None \<Rightarrow> True | Some h \<Rightarrow> h < next_ax st"
    and name: "sigma a \<in> set sigma_names"
    and sx: "salt_on_x a"
    and n2: "2 \<le> density_grid a"
    and step: "0 < dens_interval a"
    and nolev: "dict_get (kwargs a) ''levels'' = None \<and> dict_get (contour_kwargs a) ''levels'' = None"
  defines "h \<equiv> (case ax of None \<Rightarrow> fst (gca st) | Some h \<Rightarrow> h)"
    and "st1 \<equiv> (case ax of None \<Rightarrow> snd (gca st) | Some h \<Rightarrow> st)"
  defines "slims \<equiv> (case slim a of None \<Rightarrow> get_xlim h st1 | Some l \<Rightarrow> l)"
    and "tlims \<equiv> (case tlim a of None \<Rightarrow> get_ylim h st1 | Some l \<Rightarrow> l)"
    and "n \<equiv> nat (density_grid a)"
  defines "x \<equiv> map (\<lambda>j. fst slims + real j * ((snd slims - fst slims) / real_of_int (density_grid a - 1))) [0..<n]"
    and "y \<equiv> map (\<lambda>i. fst tlims + real i * ((snd tlims - fst tlims) / real_of_int (density_grid a - 1))) [0..<n]"
  defines "sig \<equiv> map (\<lambda>t. map (\<lambda>s. sigma_func g (sigma a) s t) x) y"
  defines "lo \<equiv> real_of_int \<lfloor>Min (set (concat sig))\<rfloor>"
    and "hi \<equiv> real_of_int \<lceil>Max (set (concat sig))\<rceil>"
  defines "m \<equiv> nat \<lceil>(hi - lo) / dens_interval a\<rceil>"
  defines "levels \<equiv> map (\<lambda>k. lo + real k * dens_interval a) [0..<m]"
  shows "fst (draw_dens_contours_teos10 g a ax st) = Inr ()
       \<and> (\<exists>rest. calls (axs (snd (draw_dens_contours_teos10 g a ax st)) h) =
             calls (axs st1 h) @
             [Contour x y sig (c_kwarg levels a),
              Clabel (length (calls (axs st1 h))) (c_label_kwarg a)] @ rest)
       \<and> dict_get (c_kwarg levels a) ''levels'' = Some (Ndarray levels)
       \<and> length sig = n \<and> list_all (\<lambda>row. length row = n) sig
       \<and> list_all (\<lambda>v. v < hi) levels
       \<and> hi \<le> lo + real m * dens_interval a
       \<and> (lo < hi \<longrightarrow> levels \<noteq> [] \<and> hd levels = lo)"
proof -
  have alloc: "h < next_ax st1"
    unfolding h_def st1_def using wf axok by (cases ax) (simp_all add: gca_allocated)
  have n1: "1 \<le> density_grid a" using n2 by simp
  have npos: "0 < n" and ntwo: "2 \<le> n" using n2 by (simp_all add: n_def)
  have xy: "dens_xy a h st1 = Inr (x, y)"
    using sx np_linspace_even [OF n1]
    by (simp add: dens_xy_def Let_def slims_def tlims_def x_def y_def n_def)
  have sg: "dens_sig g a x y = sig"
    using sx by (simp add: dens_sig_salt_on_x sig_def)
  have shape: "length sig = n" "list_all (\<lambda>row. length row = n) sig"
    by (simp_all add: sig_def x_def y_def list_all_iff)
  have "sig \<noteq> []" "hd sig \<noteq> []" using npos by (simp_all add: sig_def x_def y_def hd_map)
  then have nonempty: "concat sig \<noteq> []" by (cases sig) auto
  have lv: "dens_levels sig (dens_interval a) = Inr levels"
    using np_arange_progression(1) [OF step, where start = lo and stop = hi]
    by (simp add: dens_levels_def arr_min_Min [OF nonempty] arr_max_Max [OF nonempty]
        np_floor_def np_ceil_def lo_def hi_def levels_def m_def)
  define st3 where "st3 = ax_call h (Clabel (length (calls (axs st1 h))) (c_label_kwarg a))
      (ax_call h (Contour x y sig (c_kwarg levels a)) st1)"
  have run: "draw_dens_contours_teos10 g a ax st = dens_label a h (c_kwarg levels a) st3"
    unfolding st3_def
    using draw_dens_resolve [of g a ax st] draw_dens_run [OF name xy, of g levels] lv shape ntwo
    by (simp add: sg h_def st1_def) (simp add: x_def y_def)
  have ok: "fst (draw_dens_contours_teos10 g a ax st) = Inr ()"
    unfolding run by (rule dens_label_ok) (rule c_kwarg_colors)
  have c3: "calls (axs st3 h) = calls (axs st1 h) @
             [Contour x y sig (c_kwarg levels a),
              Clabel (length (calls (axs st1 h))) (c_label_kwarg a)]"
    by (simp add: st3_def calls_ax_call)
  have "h < next_ax st3" using alloc by (simp add: st3_def)
  from dens_label_appends [OF this, of a h "c_kwarg levels a"]
  have drawn: "\<exists>rest. calls (axs (snd (draw_dens_contours_teos10 g a ax st)) h) =
             calls (axs st1 h) @
             [Contour x y sig (c_kwarg levels a),
              Clabel (length (calls (axs st1 h))) (c_label_kwarg a)] @ rest"
    unfolding run c3 by simp
  have below: "list_all (\<lambda>v. v < hi) levels"
    using np_arange_progression(2) [OF step, where start = lo and stop = hi]
    by (auto simp: levels_def m_def list_all_iff)
  have maximal: "hi \<le> lo + real m * dens_interval a"
    using np_arange_progression(3) [OF step, where start = lo and stop = hi] by (simp add: m_def)
  have first: "levels \<noteq> [] \<and> hd levels = lo" if "lo < hi"
  proof -
    have "0 < (hi - lo) / dens_interval a" using that step by simp
    then have "0 < m" by (simp add: m_def)
    then show ?thesis by (simp add: levels_def hd_map upt_conv_Cons)
  qed
  show ?thesis
    using ok drawn c_kwarg_levels [of a levels] nolev shape below maximal first by simp
qed

lemma sigma0_name: "''sigma0'' \<in> set sigma_names"
  by (simp add: sigma_names_def digit_char_def upt_conv_Cons)

lemma ex_levels: "dens_levels [[0, 2], [- 1, 1]] 1 = Inr [- 1, 0, 1]"
  by (simp add: dens_levels_def arr_min_def arr_max_def np_floor_def np_ceil_def np_arange_def
      upt_conv_Cons)

text \<open>
  With a single sample a side the grid is one by one: \<^verbatim>\<open>contour\<close> refuses it, TypeError is
  raised and nothing has been drawn.
\<close>

lemma dens_contours_single_sample:
  "draw_dens_contours_teos10 ex_gsw (ex_dens\<lparr>density_grid := 1\<rparr>) (Some 0) ex_state
     = (Inl TypeError, ex_state)"
proof -
  define d where "d = ex_dens\<lparr>density_grid := 1\<rparr>"
  have n: "sigma d \<in> set sigma_names"
    using sigma0_name by (simp add: d_def ex_dens_def dens_defaults_def)
  have xy: "dens_xy d 0 ex_state = Inr ([0], [0])"
    by (simp add: d_def dens_xy_def ex_dens_def dens_defaults_def np_linspace_def)
  have sg: "dens_sig ex_gsw d [0] [0] = [[0]]"
    by (simp add: d_def dens_sig_def dens_grids_def np_meshgrid_def on_grids_def ex_dens_def
        dens_defaults_def ex_gsw_def)
  have lv: "dens_levels [[0]] (dens_interval d) = Inr []"
    by (simp add: d_def ex_dens_def dens_defaults_def dens_levels_def arr_min_def arr_max_def
        np_floor_def np_ceil_def np_arange_def)
  have "draw_dens_contours_teos10 ex_gsw d (Some 0) ex_state = (Inl TypeError, ex_state)"
    using n by (simp add: draw_dens_contours_teos10_def xy sg lv ax_contour_def)
  then show ?thesis by (simp only: d_def)
qed

text \<open>
  The claim as stated fails when the caller passes \<^verbatim>\<open>levels\<close>: the dictionaries are
  merged defaults first, so with \<^verbatim>\<open>contour_kwargs={'levels': [5, 6]}\<close> the contour call
  receives 5 and 6, while the progression computed from \<open>sig\<close> is -1, 0, 1.
\<close>

theorem dens_contours_levels_overridden:
  "calls (axs (snd (draw_dens_contours_teos10 ex_gsw ex_dens_levels (Some 0) ex_state)) 0) =
     [Contour [0, 2] [0, 1] [[0, 2], [- 1, 1]]
        [(''levels'', Ndarray [5, 6]), (''colors'', Val (PyStr ''0.4'')),
         (''linestyles'', Val (PyStr ''--'')), (''linewidths'', Val (PyFloat 0.5))],
      Clabel 0 [(''fmt'', Val (PyStr ''%.02f''))]]
   \<and> dens_sig ex_gsw ex_dens_levels [0, 2] [0, 1] = [[0, 2], [- 1, 1]]
   \<and> dens_levels [[0, 2], [- 1, 1]] (dens_interval ex_dens_levels) = Inr [- 1, 0, 1]
   \<and> [5, 6] \<noteq> [- 1, 0, 1 :: real]"
proof -
  have n: "sigma ex_dens_levels \<in> set sigma_names"
    using sigma0_name by (simp add: ex_dens_levels_def ex_dens_def dens_defaults_def)
  have xy: "dens_xy ex_dens_levels 0 ex_state = Inr ([0, 2], [0, 1])"
    by (simp add: dens_xy_def ex_dens_levels_def ex_dens_def dens_defaults_def np_linspace_def
        Let_def upt_conv_Cons)
  have sg: "dens_sig ex_gsw ex_dens_levels [0, 2] [0, 1] = [[0, 2], [- 1, 1]]"
    by (simp add: dens_sig_def dens_grids_def np_meshgrid_def on_grids_def ex_dens_levels_def
        ex_dens_def dens_defaults_def ex_gsw_def)
  have st: "dens_interval ex_dens_levels = 1"
    by (simp add: ex_dens_levels_def ex_dens_def dens_defaults_def)
  have lv: "dens_levels (dens_sig ex_gsw ex_dens_levels [0, 2] [0, 1]) (dens_interval ex_dens_levels)
      = Inr [- 1, 0, 1]"
    unfolding sg st by (rule ex_levels)
  have c: "calls (axs ex_state 0) = []" by (simp add: ex_state_def ex_axes_def)
  have ok: "2 \<le> length (dens_sig ex_gsw ex_dens_levels [0, 2] [0, 1]) \<and> 2 \<le> length [0, 2 :: real]
      \<and> length [0, 1 :: real] = length (dens_sig ex_gsw ex_dens_levels [0, 2] [0, 1])
      \<and> list_all (\<lambda>row. length row = length [0, 2 :: real])
           (dens_sig ex_gsw ex_dens_levels [0, 2] [0, 1])"
    unfolding sg by simp
  show ?thesis
    unfolding draw_dens_run [OF n xy lv ok] sg st
    by (simp add: ex_levels dens_label_def c_kwarg_def c_label_kwarg_def calls_ax_call c
        ex_dens_levels_def ex_dens_def dens_defaults_def)
qed

theorem dens_contours_grid_and_levels_witness:
  "fst (draw_dens_contours_teos10 ex_gsw ex_dens (Some 0) ex_state) = Inr ()
   \<and> (\<exists>rest. calls (axs (snd (draw_dens_contours_teos10 ex_gsw ex_dens (Some 0) ex_state)) 0) =
        [Contour [0, 2] [0, 1] [[0, 2], [- 1, 1]]
           [(''levels'', Ndarray [- 1, 0, 1]), (''colors'', Val (PyStr ''0.4'')),
            (''linestyles'', Val (PyStr ''--'')), (''linewidths'', Val (PyFloat 0.5))],
         Clabel 0 [(''fmt'', Val (PyStr ''%.02f''))]] @ rest)"
proof -
  have w: "case cur_ax ex_state of None \<Rightarrow> True | Some c \<Rightarrow> c < next_ax ex_state"
    by (simp add: ex_state_def)
  have h: "case Some (0::nat) of None \<Rightarrow> True | Some h \<Rightarrow> h < next_ax ex_state"
    by (simp add: ex_state_def)
  have n: "sigma ex_dens \<in> set sigma_names"
    using sigma0_name by (simp add: ex_dens_def dens_defaults_def)
  have sx: "salt_on_x ex_dens" by (simp add: ex_dens_def dens_defaults_def)
  have g: "2 \<le> density_grid ex_dens" by (simp add: ex_dens_def dens_defaults_def)
  have i: "0 < dens_interval ex_dens" by (simp add: ex_dens_def dens_defaults_def)
  have k: "dict_get (kwargs ex_dens) ''levels'' = None
      \<and> dict_get (contour_kwargs ex_dens) ''levels'' = None"
    by (simp add: ex_dens_def dens_defaults_def)
  have c: "calls (axs ex_state 0) = []" by (simp add: ex_state_def ex_axes_def)
  have f: "ex_dens = \<lparr>sigma = ''sigma0'', add_labels = False, density_grid = 2,
     dens_interval = 1, salt_on_x = True, slim = Some (0, 2), tlim = Some (0, 1),
     contour_kwargs = [], c_label_kwargs = [], kwargs = []\<rparr>"
    by (simp add: ex_dens_def dens_defaults_def)
  show ?thesis
    using dens_contours_grid_and_levels [OF w h n sx g i k, of ex_gsw]
    by (simp add: c f ex_gsw_def c_kwarg_def c_label_kwarg_def upt_conv_Cons)
qed

end
